theory Spec2Isabelle
  imports Complex_Main "HOL-Library.Multiset"
begin

section \<open>Python floats\<close>

text \<open>
  Every number of the program is a Python \<^verbatim>\<open>float\<close>, an IEEE 754 binary64 value. The
  embedding represents a finite float by the real number it denotes; infinities and NaN
  as arguments are not represented. The value computations of the kinetics and of the
  Euler updates (\<^verbatim>\<open>+\<close>, \<^verbatim>\<open>-\<close>, \<^verbatim>\<open>*\<close>, \<^verbatim>\<open>/\<close>, \<^verbatim>\<open>math.tanh\<close>) are embedded as exact real
  arithmetic. Rounding is written out at the places where it decides a comparison, an
  integer or a claim: decimal literals of the source (\<^verbatim>\<open>0.006\<close> is the binary64 value
  nearest to \<open>6/1000\<close>), the end \<^verbatim>\<open>t_start + duration\<close> of a stimulus window, the time
  \<^verbatim>\<open>dt*i\<close> handed to the stimuli, the additions of the builtin \<^verbatim>\<open>sum\<close> over the stimuli,
  and the quotient \<^verbatim>\<open>t_max/dt\<close> handed to \<^verbatim>\<open>round\<close>.

  \<open>b64_round\<close> is round-to-nearest, ties-to-even, on a 53-bit significand. Its exponent
  range is not bounded: subnormal numbers are not modelled, and overflow is written out
  where the code raises on it, by comparing the rounded value with \<open>b64_max\<close>.
\<close>

definition round_half_even :: "real \<Rightarrow> int" where
  \<comment> \<open>Python's \<^verbatim>\<open>round(x)\<close> on a float: nearest integer, a tie goes to the even one.\<close>
  "round_half_even x =
     (let f = \<lfloor>x\<rfloor>; d = x - of_int f
      in if d < 1/2 then f else if 1/2 < d then f + 1 else if even f then f else f + 1)"

definition b64_exponent :: "real \<Rightarrow> int" where
  \<comment> \<open>exponent of the unit in the last place of the binade that holds \<open>x\<close>\<close>
  "b64_exponent x = \<lfloor>log 2 \<bar>x\<bar>\<rfloor> - 52"

definition b64_round :: "real \<Rightarrow> real" where
  "b64_round x =
     (if x = 0 then 0
      else of_int (round_half_even (x / 2 powi b64_exponent x)) * 2 powi b64_exponent x)"

definition b64_max :: real where
  \<comment> \<open>the largest finite float; a result that rounds beyond it is an infinity\<close>
  "b64_max = (2 ^ 53 - 1) * 2 ^ 971"

definition is_b64 :: "real \<Rightarrow> bool" where
  \<comment> \<open>\<open>x\<close> is the value of some float\<close>
  "is_b64 x = (b64_round x = x)"

section \<open>Errors\<close>

datatype error = ZeroDivisionError | OverflowError

definition truediv :: "real \<Rightarrow> real \<Rightarrow> error + real" where
  \<comment> \<open>Python's \<^verbatim>\<open>x / y\<close> on floats raises \<^verbatim>\<open>ZeroDivisionError\<close> when \<^verbatim>\<open>y == 0\<close>.\<close>
  "truediv x y = (if y = 0 then Inl ZeroDivisionError else Inr (x / y))"

definition bind_err :: "error + 'a \<Rightarrow> ('a \<Rightarrow> error + 'b) \<Rightarrow> error + 'b" where
  \<comment> \<open>sequencing: an exception of the first computation skips the rest\<close>
  "bind_err r f = (case r of Inl e \<Rightarrow> Inl e | Inr x \<Rightarrow> f x)"

section \<open>State variables and parameters (\<^verbatim>\<open>bueno_orovio/ops.py\<close>)\<close>

text \<open>
  The dictionaries returned by \<^verbatim>\<open>get_variables\<close> and \<^verbatim>\<open>get_parameters\<close> have fixed key
  sets, so they are records; the field \<open>var_u\<close> is the key \<^verbatim>\<open>"u"\<close>, the field
  \<open>par_theta_v\<close> is the key \<^verbatim>\<open>"theta_v"\<close>, and so on (\<open>par_w_inf\<close> is \<^verbatim>\<open>"w_inf_"\<close>: a name
  cannot end in an underscore here).
\<close>

record variables =
  var_u :: real
  var_v :: real
  var_w :: real
  var_s :: real

definition get_variables :: variables where
  "get_variables = \<lparr>var_u = 0, var_v = 1, var_w = 1, var_s = 0\<rparr>"

record parameters =
  par_u_o :: real
  par_u_u :: real
  par_theta_v :: real
  par_theta_w :: real
  par_theta_v_m :: real
  par_theta_o :: real
  par_tau_v1_m :: real
  par_tau_v2_m :: real
  par_tau_v_p :: real
  par_tau_w1_m :: real
  par_tau_w2_m :: real
  par_k_w_m :: real
  par_u_w_m :: real
  par_tau_w_p :: real
  par_tau_fi :: real
  par_tau_o1 :: real
  par_tau_o2 :: real
  par_tau_so1 :: real
  par_tau_so2 :: real
  par_k_so :: real
  par_u_so :: real
  par_tau_s1 :: real
  par_tau_s2 :: real
  par_k_s :: real
  par_u_s :: real
  par_tau_si :: real
  par_tau_w_inf :: real
  par_w_inf :: real

definition get_parameters :: parameters where
  \<comment> \<open>Literals with an integer value (\<^verbatim>\<open>60.0\<close>) are floats exactly; the others are rounded.\<close>
  "get_parameters =
     \<lparr>par_u_o = 0,
      par_u_u = b64_round (155/100),
      par_theta_v = b64_round (3/10),
      par_theta_w = b64_round (13/100),
      par_theta_v_m = b64_round (6/1000),
      par_theta_o = b64_round (6/1000),
      par_tau_v1_m = 60,
      par_tau_v2_m = 1150,
      par_tau_v_p = b64_round (14506/10000),
      par_tau_w1_m = 60,
      par_tau_w2_m = 15,
      par_k_w_m = 65,
      par_u_w_m = b64_round (3/100),
      par_tau_w_p = 200,
      par_tau_fi = b64_round (11/100),
      par_tau_o1 = 400,
      par_tau_o2 = 6,
      par_tau_so1 = b64_round (300181/10000),
      par_tau_so2 = b64_round (9957/10000),
      par_k_so = b64_round (20458/10000),
      par_u_so = b64_round (65/100),
      par_tau_s1 = b64_round (27342/10000),
      par_tau_s2 = 16,
      par_k_s = b64_round (20994/10000),
      par_u_s = b64_round (9087/10000),
      par_tau_si = b64_round (18875/10000),
      par_tau_w_inf = b64_round (7/100),
      par_w_inf = b64_round (94/100)\<rparr>"

section \<open>Kinetics (\<^verbatim>\<open>bueno_orovio/ops.py\<close>)\<close>

text \<open>
  A conditional expression \<^verbatim>\<open>a if c else b\<close> evaluates only the branch it selects, so a
  zero divisor in the other branch raises nothing. The optional argument \<^verbatim>\<open>tanh\<close> of
  \<^verbatim>\<open>calc_s\<close>, \<^verbatim>\<open>calc_tau_w_m\<close> and \<^verbatim>\<open>calc_tau_so\<close> is never passed by the callers; it is
  its default, \<^verbatim>\<open>math.tanh\<close>.
\<close>

definition calc_rhs :: "real \<Rightarrow> real \<Rightarrow> real \<Rightarrow> real" where
  "calc_rhs J_fi J_so J_si = - J_fi - J_so - J_si"

definition calc_v :: "real \<Rightarrow> real \<Rightarrow> real \<Rightarrow> real \<Rightarrow> real \<Rightarrow> real \<Rightarrow> error + real" where
  "calc_v v u theta_v v_inf tau_v_m tau_v_p =
     (if u - theta_v < 0 then truediv (v_inf - v) tau_v_m else truediv (- v) tau_v_p)"

definition calc_w :: "real \<Rightarrow> real \<Rightarrow> real \<Rightarrow> real \<Rightarrow> real \<Rightarrow> real \<Rightarrow> error + real" where
  "calc_w w u theta_w w_inf tau_w_m tau_w_p =
     (if u - theta_w < 0 then truediv (w_inf - w) tau_w_m else truediv (- w) tau_w_p)"

definition calc_s :: "real \<Rightarrow> real \<Rightarrow> real \<Rightarrow> real \<Rightarrow> real \<Rightarrow> error + real" where
  "calc_s s u tau_s k_s u_s = truediv ((1 + tanh (k_s * (u - u_s))) / 2 - s) tau_s"

definition calc_Jfi_locals ::
  "real \<Rightarrow> real \<Rightarrow> real \<Rightarrow> real \<Rightarrow> real \<Rightarrow> real \<times> (error + real)" where
  \<comment> \<open>the body of \<^verbatim>\<open>calc_Jfi\<close>: the value bound to its local \<^verbatim>\<open>H\<close>, and what it returns\<close>
  "calc_Jfi_locals u v theta_v u_u tau_fi =
     (let H = (if u - theta_v \<ge> 0 then 1 else 0)
      in (H, truediv (- v * H * (u - theta_v) * (u_u - u)) tau_fi))"

definition calc_Jfi :: "real \<Rightarrow> real \<Rightarrow> real \<Rightarrow> real \<Rightarrow> real \<Rightarrow> error + real" where
  "calc_Jfi u v theta_v u_u tau_fi = snd (calc_Jfi_locals u v theta_v u_u tau_fi)"

definition gate_H :: "real \<Rightarrow> real \<Rightarrow> real" where
  \<comment> \<open>the local \<^verbatim>\<open>H = 1.0 if (u - theta_w) >= 0 else 0.0\<close> of \<^verbatim>\<open>calc_Jso\<close> and \<^verbatim>\<open>calc_Jsi\<close>\<close>
  "gate_H u theta = (if u - theta \<ge> 0 then 1 else 0)"

definition calc_Jso :: "real \<Rightarrow> real \<Rightarrow> real \<Rightarrow> real \<Rightarrow> real \<Rightarrow> error + real" where
  "calc_Jso u u_o theta_w tau_o tau_so =
     (let H = gate_H u theta_w
      in bind_err (truediv ((u - u_o) * (1 - H)) tau_o) (\<lambda>a.
         bind_err (truediv H tau_so) (\<lambda>b. Inr (a + b))))"

definition calc_Jsi :: "real \<Rightarrow> real \<Rightarrow> real \<Rightarrow> real \<Rightarrow> real \<Rightarrow> error + real" where
  "calc_Jsi u w s theta_w tau_si =
     (let H = gate_H u theta_w in truediv (- H * w * s) tau_si)"

definition calc_tau_v_m :: "real \<Rightarrow> real \<Rightarrow> real \<Rightarrow> real \<Rightarrow> real" where
  "calc_tau_v_m u theta_v_m tau_v1_m tau_v2_m =
     (if u - theta_v_m < 0 then tau_v1_m else tau_v2_m)"

definition calc_tau_w_m :: "real \<Rightarrow> real \<Rightarrow> real \<Rightarrow> real \<Rightarrow> real \<Rightarrow> real" where
  "calc_tau_w_m u tau_w1_m tau_w2_m k_w_m u_w_m =
     tau_w1_m + (tau_w2_m - tau_w1_m) * (1 + tanh (k_w_m * (u - u_w_m))) / 2"

definition calc_tau_so :: "real \<Rightarrow> real \<Rightarrow> real \<Rightarrow> real \<Rightarrow> real \<Rightarrow> real" where
  "calc_tau_so u tau_so1 tau_so2 k_so u_so =
     tau_so1 + (tau_so2 - tau_so1) * (1 + tanh (k_so * (u - u_so))) / 2"

definition calc_tau_s :: "real \<Rightarrow> real \<Rightarrow> real \<Rightarrow> real \<Rightarrow> real" where
  "calc_tau_s u tau_s1 tau_s2 theta_w = (if u - theta_w < 0 then tau_s1 else tau_s2)"

definition calc_tau_o :: "real \<Rightarrow> real \<Rightarrow> real \<Rightarrow> real \<Rightarrow> real" where
  "calc_tau_o u tau_o1 tau_o2 theta_o = (if u - theta_o < 0 then tau_o1 else tau_o2)"

definition calc_v_inf :: "real \<Rightarrow> real \<Rightarrow> real" where
  "calc_v_inf u theta_v_m = (if u < theta_v_m then 1 else 0)"

definition calc_w_inf :: "real \<Rightarrow> real \<Rightarrow> real \<Rightarrow> real \<Rightarrow> error + real" where
  "calc_w_inf u theta_o tau_w_inf w_inf_above =
     (if u - theta_o < 0 then bind_err (truediv u tau_w_inf) (\<lambda>q. Inr (1 - q))
      else Inr w_inf_above)"

section \<open>Stimulation and the 0D model (\<^verbatim>\<open>implementation/bueno_orovio_0d.py\<close>)\<close>

record stimulation =
  t_start :: real
  duration :: real
  amplitude :: real

definition stim :: "stimulation \<Rightarrow> real \<Rightarrow> real" where
  \<comment> \<open>\<^verbatim>\<open>t_start + duration\<close> is a float addition: the window ends at the rounded sum.\<close>
  "stim st t =
     (if t_start st \<le> t \<and> t < b64_round (t_start st + duration st) then amplitude st else 0)"

definition py_sum :: "real list \<Rightarrow> real" where
  \<comment> \<open>the builtin \<^verbatim>\<open>sum\<close> on floats: starts at 0 and adds from the left, every addition
      rounded (CPython up to 3.11; the compensation term of later versions is not modelled)\<close>
  "py_sum xs = foldl (\<lambda>acc x. b64_round (acc + x)) 0 xs"

definition stim_total :: "stimulation list \<Rightarrow> real \<Rightarrow> real" where
  \<comment> \<open>\<^verbatim>\<open>sum(stim.stim(t=...) for stim in self.stimulations)\<close>\<close>
  "stim_total stims t = py_sum (map (\<lambda>st. stim st t) stims)"

record history =
  hist_u :: "real list"
  hist_v :: "real list"
  hist_w :: "real list"
  hist_s :: "real list"

record model =
  dt :: real
  stimulations :: "stimulation list"
  variables :: variables
  parameters :: parameters
  history :: history

definition BuenoOrovio0D :: "real \<Rightarrow> stimulation list \<Rightarrow> model" where
  \<comment> \<open>the constructor \<^verbatim>\<open>__init__\<close>\<close>
  "BuenoOrovio0D step_size stims =
     \<lparr>dt = step_size, stimulations = stims, variables = get_variables,
      parameters = get_parameters,
      history = \<lparr>hist_u = [], hist_v = [], hist_w = [], hist_s = []\<rparr>\<rparr>"

definition step_time :: "real \<Rightarrow> int \<Rightarrow> real" where
  \<comment> \<open>\<^verbatim>\<open>self.dt*i\<close>: the integer is converted to a float, the product is rounded\<close>
  "step_time step_size i = b64_round (step_size * b64_round (of_int i))"

definition step :: "int \<Rightarrow> model \<Rightarrow> error + model" where
  \<comment> \<open>\<open>x1\<close>, \<open>x2\<close>, \<open>x3\<close> are \<^verbatim>\<open>self.variables\<close> after the in-place updates of
      \<^verbatim>\<open>"v"\<close>, \<^verbatim>\<open>"w"\<close> and \<^verbatim>\<open>"s"\<close>; the later lines read the updated dictionary.\<close>
  "step i m =
     (let p = parameters m; x0 = variables m;
          v_inf = calc_v_inf (var_u x0) (par_theta_v_m p);
          tau_v_m = calc_tau_v_m (var_u x0) (par_theta_v_m p) (par_tau_v1_m p) (par_tau_v2_m p)
      in bind_err (calc_v (var_v x0) (var_u x0) (par_theta_v p) v_inf tau_v_m (par_tau_v_p p)) (\<lambda>dv.
         let x1 = x0\<lparr>var_v := var_v x0 + dt m * dv\<rparr>
         in bind_err (calc_w_inf (var_u x1) (par_theta_o p) (par_tau_w_inf p) (par_w_inf p)) (\<lambda>w_inf.
         let tau_w_m = calc_tau_w_m (var_u x1) (par_tau_w1_m p) (par_tau_w2_m p)
                         (par_k_w_m p) (par_u_w_m p)
         in bind_err (calc_w (var_w x1) (var_u x1) (par_theta_w p) w_inf tau_w_m (par_tau_w_p p)) (\<lambda>dw.
         let x2 = x1\<lparr>var_w := var_w x1 + dt m * dw\<rparr>;
             tau_s = calc_tau_s (var_u x2) (par_tau_s1 p) (par_tau_s2 p) (par_theta_w p)
         in bind_err (calc_s (var_s x2) (var_u x2) tau_s (par_k_s p) (par_u_s p)) (\<lambda>ds.
         let x3 = x2\<lparr>var_s := var_s x2 + dt m * ds\<rparr>
         in bind_err (calc_Jfi (var_u x3) (var_v x3) (par_theta_v p) (par_u_u p) (par_tau_fi p)) (\<lambda>J_fi.
         let tau_o = calc_tau_o (var_u x3) (par_tau_o1 p) (par_tau_o2 p) (par_theta_o p);
             tau_so = calc_tau_so (var_u x3) (par_tau_so1 p) (par_tau_so2 p)
                        (par_k_so p) (par_u_so p)
         in bind_err (calc_Jso (var_u x3) (par_u_o p) (par_theta_w p) tau_o tau_so) (\<lambda>J_so.
            bind_err (calc_Jsi (var_u x3) (var_w x3) (var_s x3) (par_theta_w p) (par_tau_si p)) (\<lambda>J_si.
            Inr (m\<lparr>variables := x3\<lparr>var_u := var_u x3 + dt m *
                   (calc_rhs J_fi J_so J_si
                    + stim_total (stimulations m) (step_time (dt m) i))\<rparr>\<rparr>)))))))))"

definition record_history :: "model \<Rightarrow> model" where
  \<comment> \<open>\<^verbatim>\<open>for s in self.variables: self.history[s].append(self.variables[s])\<close>\<close>
  "record_history m =
     m\<lparr>history :=
         \<lparr>hist_u = hist_u (history m) @ [var_u (variables m)],
          hist_v = hist_v (history m) @ [var_v (variables m)],
          hist_w = hist_w (history m) @ [var_w (variables m)],
          hist_s = hist_s (history m) @ [var_s (variables m)]\<rparr>\<rparr>"

definition py_range :: "int \<Rightarrow> int list" where
  \<comment> \<open>\<^verbatim>\<open>range(n)\<close>: empty when \<open>n \<le> 0\<close>\<close>
  "py_range n = map int [0..<nat n]"

fun run_loop :: "int list \<Rightarrow> model \<Rightarrow> error + model" where
  "run_loop [] m = Inr m"
| "run_loop (i # rest) m = bind_err (step i m) (\<lambda>m'. run_loop rest (record_history m'))"

definition n_steps :: "real \<Rightarrow> real \<Rightarrow> error + int" where
  \<comment> \<open>\<^verbatim>\<open>int(round(t_max/self.dt))\<close>: the quotient is a float, and \<^verbatim>\<open>round\<close> raises
      \<^verbatim>\<open>OverflowError\<close> on an infinite one; finite arguments never give NaN\<close>
  "n_steps t_max step_size =
     bind_err (truediv t_max step_size) (\<lambda>q.
       if b64_max < \<bar>b64_round q\<bar> then Inl OverflowError
       else Inr (round_half_even (b64_round q)))"

definition run :: "real \<Rightarrow> model \<Rightarrow> error + model" where
  "run t_max m = bind_err (n_steps t_max (dt m)) (\<lambda>n. run_loop (py_range n) m)"

definition run_object :: "real \<Rightarrow> model \<Rightarrow> model option" where
  \<comment> \<open>the object after the call \<^verbatim>\<open>model.run(t)\<close>, whether it returns or raises: an exception
      of the first line leaves the object as it was; \<open>None\<close> where \<^verbatim>\<open>step\<close> raises inside
      the loop, after updates that the embedding does not follow\<close>
  "run_object t m =
     (case n_steps t (dt m) of
        Inl e \<Rightarrow> Some m
      | Inr n \<Rightarrow> (case run_loop (py_range n) m of Inl e \<Rightarrow> None | Inr m' \<Rightarrow> Some m'))"

fun run_calls :: "real list \<Rightarrow> model \<Rightarrow> model option" where
  \<comment> \<open>successive calls \<^verbatim>\<open>model.run(t)\<close> on the same object\<close>
  "run_calls [] m = Some m"
| "run_calls (t # ts) m = (case run_object t m of None \<Rightarrow> None | Some m' \<Rightarrow> run_calls ts m')"

section \<open>The textbook scheme of the specification\<close>

text \<open>
  The specification describes \<^verbatim>\<open>step\<close> as the forward Euler update in which all four
  derivatives are evaluated at the state the step starts from. \<open>forward_euler_step\<close>
  follows these words; it is compared with \<open>step\<close> below.
\<close>

definition forward_euler_step :: "int \<Rightarrow> model \<Rightarrow> error + model" where
  "forward_euler_step i m =
     (let p = parameters m; x0 = variables m;
          v_inf = calc_v_inf (var_u x0) (par_theta_v_m p);
          tau_v_m = calc_tau_v_m (var_u x0) (par_theta_v_m p) (par_tau_v1_m p) (par_tau_v2_m p)
      in bind_err (calc_v (var_v x0) (var_u x0) (par_theta_v p) v_inf tau_v_m (par_tau_v_p p)) (\<lambda>dv.
         bind_err (calc_w_inf (var_u x0) (par_theta_o p) (par_tau_w_inf p) (par_w_inf p)) (\<lambda>w_inf.
         let tau_w_m = calc_tau_w_m (var_u x0) (par_tau_w1_m p) (par_tau_w2_m p)
                         (par_k_w_m p) (par_u_w_m p)
         in bind_err (calc_w (var_w x0) (var_u x0) (par_theta_w p) w_inf tau_w_m (par_tau_w_p p)) (\<lambda>dw.
         let tau_s = calc_tau_s (var_u x0) (par_tau_s1 p) (par_tau_s2 p) (par_theta_w p)
         in bind_err (calc_s (var_s x0) (var_u x0) tau_s (par_k_s p) (par_u_s p)) (\<lambda>ds.
            bind_err (calc_Jfi (var_u x0) (var_v x0) (par_theta_v p) (par_u_u p) (par_tau_fi p)) (\<lambda>J_fi.
         let tau_o = calc_tau_o (var_u x0) (par_tau_o1 p) (par_tau_o2 p) (par_theta_o p);
             tau_so = calc_tau_so (var_u x0) (par_tau_so1 p) (par_tau_so2 p)
                        (par_k_so p) (par_u_so p)
         in bind_err (calc_Jso (var_u x0) (par_u_o p) (par_theta_w p) tau_o tau_so) (\<lambda>J_so.
            bind_err (calc_Jsi (var_u x0) (var_w x0) (var_s x0) (par_theta_w p) (par_tau_si p)) (\<lambda>J_si.
            Inr (m\<lparr>variables :=
                   \<lparr>var_u = var_u x0 + dt m *
                      (calc_rhs J_fi J_so J_si
                       + stim_total (stimulations m) (step_time (dt m) i)),
                    var_v = var_v x0 + dt m * dv,
                    var_w = var_w x0 + dt m * dw,
                    var_s = var_s x0 + dt m * ds\<rparr>\<rparr>)))))))))"

section \<open>Steps in sequence\<close>

text \<open>
  The claims about \<^verbatim>\<open>run\<close> speak of the calls of \<^verbatim>\<open>step\<close> and of the state after a number
  of them. \<open>iterate_step\<close> is \<^verbatim>\<open>step\<close> called once for each index of a list, in the order
  of the list, and nothing else; \<open>call_indices\<close> lists the indices that a sequence of calls
  of \<^verbatim>\<open>run\<close> hands to \<^verbatim>\<open>step\<close>.
\<close>

fun iterate_step :: "int list \<Rightarrow> model \<Rightarrow> error + model" where
  "iterate_step [] m = Inr m"
| "iterate_step (i # rest) m = bind_err (step i m) (iterate_step rest)"

definition call_indices :: "real \<Rightarrow> real list \<Rightarrow> int list" where
  \<comment> \<open>every call counts from 0; a call that raises in its first line performs no step\<close>
  "call_indices step_size ts =
     concat (map (\<lambda>t. case n_steps t step_size of Inl e \<Rightarrow> [] | Inr n \<Rightarrow> py_range n) ts)"

fun sums_exact :: "real \<Rightarrow> real list \<Rightarrow> bool" where
  \<comment> \<open>no addition of the left-to-right sum of \<open>xs\<close>, started at \<open>acc\<close>, rounds\<close>
  "sums_exact acc [] = True"
| "sums_exact acc (x # xs) = (is_b64 (acc + x) \<and> sums_exact (acc + x) xs)"

section \<open>Rounding: basic facts\<close>

lemma round_half_even_cases:
  "round_half_even x = \<lfloor>x\<rfloor> \<or> round_half_even x = \<lfloor>x\<rfloor> + 1"
  by (simp add: round_half_even_def Let_def)

lemma round_half_even_of_int [simp]: "round_half_even (of_int k) = k"
  by (simp add: round_half_even_def)

lemma round_half_even_lower: "of_int k \<le> x \<Longrightarrow> k \<le> round_half_even x"
proof -
  assume "of_int k \<le> x"
  then have "k \<le> \<lfloor>x\<rfloor>" by (simp add: le_floor_iff)
  then show ?thesis using round_half_even_cases [of x] by linarith
qed

lemma round_half_even_upper: "x \<le> of_int k \<Longrightarrow> round_half_even x \<le> k"
proof (cases "x = of_int k")
  case True
  then show ?thesis by simp
next
  case False
  assume "x \<le> of_int k"
  with False have "x < of_int k" by simp
  then have "\<lfloor>x\<rfloor> < k" by (simp add: floor_less_iff)
  then show ?thesis using round_half_even_cases [of x] by linarith
qed

lemma b64_exponent_eqI:
  assumes "2 ^ 52 \<le> \<bar>x\<bar> / 2 powi e" and "\<bar>x\<bar> / 2 powi e < 2 ^ 53"
  shows "b64_exponent x = e"
proof -
  have pos: "(0::real) < 2 powi e" by simp
  from assms(1) have x0: "0 < \<bar>x\<bar>"
    by (smt (verit) pos divide_nonpos_pos zero_less_power)
  have split: "(2::real) powi (e + 52) = 2 powi e * 2 ^ 52"
    by (simp add: power_int_add)
  have split1: "(2::real) powi (e + 52 + 1) = 2 powi e * 2 ^ 53"
    by (simp add: power_int_add)
  from assms(1) pos have "2 powi e * 2 ^ 52 \<le> \<bar>x\<bar>"
    by (simp add: pos_le_divide_eq mult.commute)
  then have lo: "2 powr real_of_int (e + 52) \<le> \<bar>x\<bar>"
    using powr_real_of_int' [of "2::real" "e + 52"] split by simp
  from assms(2) pos have "\<bar>x\<bar> < 2 powi e * 2 ^ 53"
    by (simp add: pos_divide_less_eq mult.commute)
  then have hi: "\<bar>x\<bar> < 2 powr real_of_int (e + 52 + 1)"
    using powr_real_of_int' [of "2::real" "e + 52 + 1"] split1 by simp
  have "\<lfloor>log 2 \<bar>x\<bar>\<rfloor> = e + 52"
    using floor_log_eq_powr_iff [of "\<bar>x\<bar>" 2 "e + 52"] x0 lo hi by simp
  then show ?thesis by (simp add: b64_exponent_def)
qed

lemma b64_binade:
  assumes "x \<noteq> 0"
  shows "2 ^ 52 \<le> \<bar>x\<bar> / 2 powi b64_exponent x \<and> \<bar>x\<bar> / 2 powi b64_exponent x < 2 ^ 53"
proof -
  define k where "k = \<lfloor>log 2 \<bar>x\<bar>\<rfloor>"
  have x0: "0 < \<bar>x\<bar>" using assms by simp
  have "2 powr real_of_int k \<le> \<bar>x\<bar> \<and> \<bar>x\<bar> < 2 powr real_of_int (k + 1)"
    using floor_log_eq_powr_iff [of "\<bar>x\<bar>" 2 k] x0 by (simp add: k_def)
  then have lo: "2 powi k \<le> \<bar>x\<bar>" and hi: "\<bar>x\<bar> < 2 powi (k + 1)"
    using powr_real_of_int' [of "2::real" k] powr_real_of_int' [of "2::real" "k + 1"]
    by simp_all
  have e: "b64_exponent x = k - 52" by (simp add: b64_exponent_def k_def)
  have pos: "(0::real) < 2 powi (k - 52)" by simp
  have k1: "(2::real) powi k = 2 powi (k - 52) * 2 ^ 52"
    using power_int_add [of "2::real" "k - 52" 52] by simp
  have k2: "(2::real) powi (k + 1) = 2 powi (k - 52) * 2 ^ 53"
    using power_int_add [of "2::real" "k - 52" 53] by (simp add: add.commute)
  from lo k1 have "2 powi (k - 52) * 2 ^ 52 \<le> \<bar>x\<bar>" by simp
  then have a: "2 ^ 52 \<le> \<bar>x\<bar> / 2 powi (k - 52)"
    using pos by (simp add: pos_le_divide_eq mult.commute)
  from hi k2 have "\<bar>x\<bar> < 2 powi (k - 52) * 2 ^ 53" by simp
  then have b: "\<bar>x\<bar> / 2 powi (k - 52) < 2 ^ 53"
    using pos by (simp add: pos_divide_less_eq mult.commute)
  show ?thesis using a b e by simp
qed

lemma b64_round_eval:
  assumes "2 ^ 52 \<le> \<bar>x\<bar> / 2 powi e" and "\<bar>x\<bar> / 2 powi e < 2 ^ 53"
  shows "b64_round x = of_int (round_half_even (x / 2 powi e)) * 2 powi e"
proof -
  have "b64_exponent x = e" using assms by (rule b64_exponent_eqI)
  moreover have "x \<noteq> 0" using assms(1) by auto
  ultimately show ?thesis by (simp add: b64_round_def)
qed

lemma floor_uminus_nonint:
  fixes x :: real
  assumes "x \<noteq> of_int \<lfloor>x\<rfloor>"
  shows "\<lfloor>- x\<rfloor> = - \<lfloor>x\<rfloor> - 1"
  using assms by (simp add: floor_minus ceiling_altdef)

lemma round_half_even_uminus: "round_half_even (- x) = - round_half_even x"
proof (cases "x = of_int \<lfloor>x\<rfloor>")
  case True
  then obtain k where "x = of_int k" ..
  then have "- x = of_int (- k)" by simp
  then show ?thesis using \<open>x = of_int k\<close> by (simp only: round_half_even_of_int)
next
  case False
  then have f: "\<lfloor>- x\<rfloor> = - \<lfloor>x\<rfloor> - 1" by (rule floor_uminus_nonint)
  show ?thesis
    unfolding round_half_even_def Let_def f by auto
qed

lemma b64_exponent_uminus: "b64_exponent (- x) = b64_exponent x"
  by (simp add: b64_exponent_def)

lemma b64_round_uminus: "b64_round (- x) = - b64_round x"
  by (simp add: b64_round_def b64_exponent_uminus round_half_even_uminus)

lemma b64_round_pos:
  assumes "0 < x"
  shows "0 < b64_round x"
proof -
  define q :: real where "q = 2 powi b64_exponent x"
  have q: "0 < q" by (simp add: q_def)
  have "2 ^ 52 \<le> \<bar>x\<bar> / q" using b64_binade [of x] assms by (simp add: q_def)
  then have "of_int (2 ^ 52) \<le> x / q" using assms by simp
  then have "2 ^ 52 \<le> round_half_even (x / q)" by (rule round_half_even_lower)
  then have "0 < round_half_even (x / q)" by simp
  then have "0 < of_int (round_half_even (x / q)) * q" using q by simp
  then show ?thesis using assms by (simp add: b64_round_def q_def)
qed

lemma b64_round_le_pos:
  assumes "0 < y" and "y \<le> x" and "b64_round x = x"
  shows "b64_round y \<le> x"
proof -
  define e where "e = b64_exponent y"
  define q :: real where "q = 2 powi e"
  have q: "0 < q" by (simp add: q_def)
  have y: "b64_round y = of_int (round_half_even (y / q)) * q"
    using assms(1) by (simp add: b64_round_def q_def e_def)
  have bin: "2 ^ 52 \<le> y / q" "y / q < 2 ^ 53"
    using b64_binade [of y] assms(1) by (simp_all add: q_def e_def)
  have yx: "y / q \<le> x / q" using assms(2) q by (simp add: divide_right_mono)
  show ?thesis
  proof (cases "x / q < 2 ^ 53")
    case True
    have "b64_round x = of_int (round_half_even (x / q)) * q"
      unfolding q_def using bin yx True assms(1,2) 
      by (intro b64_round_eval) (simp_all add: q_def)
    then have "x / q = of_int (round_half_even (x / q))"
      using assms(3) q by (simp add: field_simps)
    then have "round_half_even (y / q) \<le> round_half_even (x / q)"
      using yx round_half_even_upper [of "y / q" "round_half_even (x / q)"] by simp
    then have "of_int (round_half_even (y / q)) * q \<le> of_int (round_half_even (x / q)) * q"
      using q by simp
    also have "\<dots> = x" using \<open>x / q = of_int (round_half_even (x / q))\<close> q
      by (metis nonzero_divide_eq_eq order_less_irrefl)
    finally show ?thesis using y by simp
  next
    case False
    then have "2 ^ 53 \<le> x / q" by simp
    then have big: "2 ^ 53 * q \<le> x" using q by (simp add: pos_le_divide_eq)
    have "y / q \<le> of_int (2 ^ 53)" using bin(2) by simp
    then have "round_half_even (y / q) \<le> 2 ^ 53" by (rule round_half_even_upper)
    then have "of_int (round_half_even (y / q)) \<le> (2::real) ^ 53"
      by (metis of_int_le_iff of_int_numeral of_int_power)
    then have "of_int (round_half_even (y / q)) * q \<le> 2 ^ 53 * q" using q by simp
    then show ?thesis using y big by linarith
  qed
qed

lemma b64_round_ge_pos:
  assumes "0 < x" and "x \<le> y" and "b64_round x = x"
  shows "x \<le> b64_round y"
proof -
  define e where "e = b64_exponent y"
  define q :: real where "q = 2 powi e"
  have q: "0 < q" by (simp add: q_def)
  have y0: "0 < y" using assms by simp
  have y: "b64_round y = of_int (round_half_even (y / q)) * q"
    using y0 by (simp add: b64_round_def q_def e_def)
  have bin: "2 ^ 52 \<le> y / q" "y / q < 2 ^ 53"
    using b64_binade [of y] y0 by (simp_all add: q_def e_def)
  have xy: "x / q \<le> y / q" using assms(2) q by (simp add: divide_right_mono)
  show ?thesis
  proof (cases "2 ^ 52 \<le> x / q")
    case True
    have "b64_round x = of_int (round_half_even (x / q)) * q"
      unfolding q_def using bin xy True assms(1,2)
      by (intro b64_round_eval) (simp_all add: q_def)
    then have xq: "x / q = of_int (round_half_even (x / q))"
      using assms(3) q by (simp add: field_simps)
    then have "round_half_even (x / q) \<le> round_half_even (y / q)"
      using xy round_half_even_lower [of "round_half_even (x / q)" "y / q"] by simp
    then have "of_int (round_half_even (x / q)) * q \<le> of_int (round_half_even (y / q)) * q"
      using q by simp
    moreover have "of_int (round_half_even (x / q)) * q = x" using xq q
      by (metis nonzero_divide_eq_eq order_less_irrefl)
    ultimately show ?thesis using y by simp
  next
    case False
    then have "x / q < 2 ^ 52" by simp
    then have small: "x \<le> 2 ^ 52 * q" using q by (simp add: pos_divide_less_eq)
    have "of_int (2 ^ 52) \<le> y / q" using bin(1) by simp
    then have "2 ^ 52 \<le> round_half_even (y / q)" by (rule round_half_even_lower)
    then have "(2::real) ^ 52 \<le> of_int (round_half_even (y / q))"
      by (metis of_int_le_iff of_int_numeral of_int_power)
    then have "2 ^ 52 * q \<le> of_int (round_half_even (y / q)) * q" using q by simp
    then show ?thesis using y small by linarith
  qed
qed

lemma b64_round_zero [simp]: "b64_round 0 = 0"
  by (simp add: b64_round_def)

lemma b64_round_neg: "x < 0 \<Longrightarrow> b64_round x < 0"
  using b64_round_pos [of "- x"] by (simp add: b64_round_uminus)

lemma b64_round_le:
  assumes "y \<le> x" and "b64_round x = x"
  shows "b64_round y \<le> x"
proof -
  consider "0 < y" | "y = 0" | "y < 0" "0 \<le> x" | "y < 0" "x < 0" by linarith
  then show ?thesis
  proof cases
    case 1
    then show ?thesis using assms by (rule b64_round_le_pos)
  next
    case 2
    then show ?thesis using assms by simp
  next
    case 3
    then show ?thesis using b64_round_neg [of y] by simp
  next
    case 4
    have "- x \<le> b64_round (- y)"
      using 4 assms by (intro b64_round_ge_pos) (simp_all add: b64_round_uminus)
    then show ?thesis by (simp add: b64_round_uminus)
  qed
qed

lemma b64_round_ge:
  assumes "x \<le> y" and "b64_round x = x"
  shows "x \<le> b64_round y"
  using b64_round_le [of "- y" "- x"] assms by (simp add: b64_round_uminus)

section \<open>Errors and records: basic facts\<close>

lemma truediv_nonzero: "y \<noteq> 0 \<Longrightarrow> truediv x y = Inr (x / y)"
  by (simp add: truediv_def)

lemma bind_err_Inr [simp]: "bind_err (Inr x) f = f x"
  by (simp add: bind_err_def)

lemma bind_err_Inl [simp]: "bind_err (Inl e) f = Inl e"
  by (simp add: bind_err_def)

lemma bind_err_eq_Inr:
  "(bind_err r f = Inr y) = (\<exists>x. r = Inr x \<and> f x = Inr y)"
  by (cases r) simp_all

lemma BuenoOrovio0D_fields [simp]:
  "dt (BuenoOrovio0D d stims) = d" "stimulations (BuenoOrovio0D d stims) = stims"
  "variables (BuenoOrovio0D d stims) = get_variables"
  "parameters (BuenoOrovio0D d stims) = get_parameters"
  "hist_u (history (BuenoOrovio0D d stims)) = []"
  "hist_v (history (BuenoOrovio0D d stims)) = []"
  "hist_w (history (BuenoOrovio0D d stims)) = []"
  "hist_s (history (BuenoOrovio0D d stims)) = []"
  by (simp_all add: BuenoOrovio0D_def)

lemma record_history_frame [simp]:
  "parameters (record_history m) = parameters m" "dt (record_history m) = dt m"
  "stimulations (record_history m) = stimulations m"
  "variables (record_history m) = variables m"
  by (simp_all add: record_history_def)

lemma record_history_lists [simp]:
  "hist_u (history (record_history m)) = hist_u (history m) @ [var_u (variables m)]"
  "hist_v (history (record_history m)) = hist_v (history m) @ [var_v (variables m)]"
  "hist_w (history (record_history m)) = hist_w (history m) @ [var_w (variables m)]"
  "hist_s (history (record_history m)) = hist_s (history m) @ [var_s (variables m)]"
  by (simp_all add: record_history_def)

section \<open>Threshold conventions of the kinetics\<close>

text \<open>
  Claim C5. At \<open>u = theta_v\<close> the local \<^verbatim>\<open>H\<close> of \<^verbatim>\<open>calc_Jfi\<close> is 1: it is 1 exactly when
  \<open>u \<ge> theta_v\<close>, and \<^verbatim>\<open>calc_Jfi\<close> returns the value computed from it. \<^verbatim>\<open>calc_v_inf\<close> is 1
  exactly when \<open>u < theta_v_m\<close>, so it is 0 at \<open>u = theta_v_m\<close>. Both hold for all values of
  the parameters. The factor \<open>u - theta_v\<close> makes the value returned by \<^verbatim>\<open>calc_Jfi\<close> zero
  at the boundary under either convention, so the convention is stated of the local.
\<close>

theorem threshold_boundary_conventions:
  "fst (calc_Jfi_locals theta_v v theta_v u_u tau_fi) = 1
   \<and> fst (calc_Jfi_locals u v theta_v u_u tau_fi) = (if theta_v \<le> u then 1 else 0)
   \<and> calc_Jfi u v theta_v u_u tau_fi
       = truediv (- v * fst (calc_Jfi_locals u v theta_v u_u tau_fi) * (u - theta_v) * (u_u - u))
           tau_fi
   \<and> calc_v_inf theta_v_m theta_v_m = 0
   \<and> calc_v_inf u theta_v_m = (if u < theta_v_m then 1 else 0)"
  by (simp add: calc_Jfi_def calc_Jfi_locals_def calc_v_inf_def Let_def)

text \<open>
  Claim C6. With a nonzero divisor \<open>tau_w_inf\<close>, \<^verbatim>\<open>calc_w_inf\<close> returns
  \<open>1 - u / tau_w_inf\<close> when \<open>u < theta_o\<close> and the constant \<^verbatim>\<open>w_inf_\<close> when \<open>u \<ge> theta_o\<close>.
\<close>

theorem calc_w_inf_formula:
  "tau_w_inf \<noteq> 0 \<Longrightarrow>
   calc_w_inf u theta_o tau_w_inf w_inf_above
     = Inr (if u < theta_o then 1 - u / tau_w_inf else w_inf_above)"
  by (simp add: calc_w_inf_def truediv_def)

theorem calc_w_inf_formula_witness:
  "(2::real) \<noteq> 0 \<and> calc_w_inf 1 3 2 5 = Inr (1/2) \<and> calc_w_inf 3 3 2 5 = Inr 5
   \<and> calc_w_inf 4 3 2 5 = Inr 5"
  using calc_w_inf_formula [of 2 1 3 5] calc_w_inf_formula [of 2 3 3 5]
    calc_w_inf_formula [of 2 4 3 5]
  by simp

section \<open>Rounding: values of literals\<close>

lemma round_half_even_numeral [simp]: "round_half_even (numeral n) = numeral n"
  using round_half_even_of_int [of "numeral n"] by simp

lemma round_half_even_1 [simp]: "round_half_even 1 = 1"
  using round_half_even_of_int [of 1] by simp

lemma b64_round_exact:
  assumes "2 ^ 52 \<le> \<bar>x\<bar> / 2 powi e" and "\<bar>x\<bar> / 2 powi e < 2 ^ 53"
    and "x / 2 powi e = of_int k"
  shows "b64_round x = x"
proof -
  have "b64_round x = of_int (round_half_even (x / 2 powi e)) * 2 powi e"
    using assms(1,2) by (rule b64_round_eval)
  also have "\<dots> = x / 2 powi e * 2 powi e" by (simp add: assms(3))
  also have "\<dots> = x" by simp
  finally show ?thesis .
qed

lemma b64_round_1 [simp]: "b64_round 1 = 1"
  by (rule b64_round_exact [where e = "-52" and k = "2 ^ 52"]) (simp_all add: power_int_minus)

lemma b64_round_half [simp]: "b64_round (1/2) = 1/2"
  by (rule b64_round_exact [where e = "-53" and k = "2 ^ 52"]) (simp_all add: power_int_minus)

lemma b64_round_3_halves [simp]: "b64_round (3/2) = 3/2"
  by (rule b64_round_exact [where e = "-52" and k = "3 * 2 ^ 51"]) (simp_all add: power_int_minus)

lemma b64_literal_9_100: "b64_round (9/100) = 6485183463413514 / 2 ^ 56"
  by (subst b64_round_eval [where e = "-56"]) (simp_all add: round_half_even_def power_int_minus)

lemma b64_literal_1_10: "b64_round (1/10) = 7205759403792794 / 2 ^ 56"
  by (subst b64_round_eval [where e = "-56"]) (simp_all add: round_half_even_def power_int_minus)

lemma b64_literal_2_10: "b64_round (1/5) = 7205759403792794 / 2 ^ 55"
  by (subst b64_round_eval [where e = "-55"]) (simp_all add: round_half_even_def power_int_minus)

lemma b64_literal_29_100: "b64_round (29/100) = 5224175567749775 / 2 ^ 54"
  by (subst b64_round_eval [where e = "-54"]) (simp_all add: round_half_even_def power_int_minus)

lemma b64_literal_3_10: "b64_round (3/10) = 5404319552844595 / 2 ^ 54"
  by (subst b64_round_eval [where e = "-54"]) (simp_all add: round_half_even_def power_int_minus)

lemma b64_sum_1_10_2_10:
  "b64_round (b64_round (1/10) + b64_round (1/5)) = 5404319552844596 / 2 ^ 54"
  unfolding b64_literal_1_10 b64_literal_2_10
  by (subst b64_round_eval [where e = "-54"]) (simp_all add: round_half_even_def power_int_minus)

lemma b64_round_2 [simp]: "b64_round 2 = 2"
  by (rule b64_round_exact [where e = "-51" and k = "2 ^ 52"]) (simp_all add: power_int_minus)

lemma b64_round_idem_pos:
  assumes "0 < x"
  shows "b64_round (b64_round x) = b64_round x"
proof -
  define e where "e = b64_exponent x"
  define q :: real where "q = 2 powi e"
  define k where "k = round_half_even (x / q)"
  have q: "0 < q" by (simp add: q_def)
  have r: "b64_round x = of_int k * q" using assms by (simp add: b64_round_def q_def e_def k_def)
  have bin: "2 ^ 52 \<le> x / q" "x / q < 2 ^ 53"
    using b64_binade [of x] assms by (simp_all add: q_def e_def)
  have "of_int (2 ^ 52) \<le> x / q" using bin(1) by simp
  then have lo: "2 ^ 52 \<le> k" unfolding k_def by (rule round_half_even_lower)
  have "x / q \<le> of_int (2 ^ 53)" using bin(2) by simp
  then have hi: "k \<le> 2 ^ 53" unfolding k_def by (rule round_half_even_upper)
  have kpos: "\<bar>of_int k * q\<bar> / q = of_int k" using q lo by simp
  show ?thesis
  proof (cases "k < 2 ^ 53")
    case True
    have "b64_round (of_int k * q) = of_int k * q"
    proof (rule b64_round_exact [where e = e and k = k])
      show "2 ^ 52 \<le> \<bar>of_int k * q\<bar> / 2 powi e"
        using kpos lo unfolding q_def [symmetric]
        by (metis of_int_le_iff of_int_numeral of_int_power)
      show "\<bar>of_int k * q\<bar> / 2 powi e < 2 ^ 53"
        using kpos True unfolding q_def [symmetric]
        by (metis of_int_less_iff of_int_numeral of_int_power)
      show "of_int k * q / 2 powi e = of_int k" using q by (simp add: q_def)
    qed
    then show ?thesis by (simp add: r)
  next
    case False
    then have k: "k = 2 ^ 53" using hi by simp
    have q2: "(2::real) powi (e + 1) = 2 * q" by (simp add: q_def power_int_add)
    have val: "of_int k * q = 2 ^ 52 * (2 * q)" by (simp add: k)
    have "b64_round (2 ^ 52 * (2 * q)) = 2 ^ 52 * (2 * q)"
    proof (rule b64_round_exact [where e = "e + 1" and k = "2 ^ 52"])
      show "2 ^ 52 \<le> \<bar>2 ^ 52 * (2 * q)\<bar> / 2 powi (e + 1)" using q by (simp add: q2)
      show "\<bar>2 ^ 52 * (2 * q)\<bar> / 2 powi (e + 1) < 2 ^ 53" using q by (simp add: q2)
      show "2 ^ 52 * (2 * q) / 2 powi (e + 1) = of_int (2 ^ 52)" using q by (simp add: q2)
    qed
    then show ?thesis by (simp add: r val)
  qed
qed

lemma b64_round_idem [simp]: "b64_round (b64_round x) = b64_round x"
proof -
  consider "0 < x" | "x = 0" | "x < 0" by linarith
  then show ?thesis
  proof cases
    case 1
    then show ?thesis by (rule b64_round_idem_pos)
  next
    case 2
    then show ?thesis by simp
  next
    case 3
    then have "b64_round (b64_round (- x)) = b64_round (- x)"
      by (intro b64_round_idem_pos) simp
    then show ?thesis by (simp add: b64_round_uminus)
  qed
qed

lemma is_b64_round [simp]: "is_b64 (b64_round x)"
  by (simp add: is_b64_def)

lemma is_b64_0 [simp]: "is_b64 0"
  by (simp add: is_b64_def)

section \<open>The stimulus window\<close>

text \<open>
  The float nearest to \<open>3/10\<close> lies below the float sum of the floats nearest to \<open>1/10\<close>
  and \<open>2/10\<close> (\<^verbatim>\<open>0.1 + 0.2\<close> is \<^verbatim>\<open>0.30000000000000004\<close>), so \<^verbatim>\<open>stim(0.30)\<close> of
  \<^verbatim>\<open>Stimulation(t_start=0.1, duration=0.2, amplitude=5.0)\<close> is the amplitude, not 0.
\<close>

theorem stim_window_counterexample:
  "stim \<lparr>t_start = b64_round (1/10), duration = b64_round (2/10), amplitude = 5\<rparr>
     (b64_round (3/10)) \<noteq> 0"
  by (simp add: stim_def b64_sum_1_10_2_10) (simp add: b64_literal_1_10 b64_literal_3_10)

text \<open>
  Claim C4, amended. \<^verbatim>\<open>stim(t)\<close> returns the amplitude if \<open>t_start \<le> t\<close> and \<open>t\<close> is below
  the float sum \<^verbatim>\<open>t_start + duration\<close>, and 0 otherwise; where that sum is exact the window
  is the half-open interval from \<open>t_start\<close> to \<open>t_start + duration\<close>. For
  \<^verbatim>\<open>Stimulation(t_start=0.1, duration=0.2, amplitude=5.0)\<close>: \<^verbatim>\<open>stim(0.09)\<close> is 0,
  \<^verbatim>\<open>stim(0.10)\<close> is 5, \<^verbatim>\<open>stim(0.29)\<close> is 5 and \<^verbatim>\<open>stim(0.30)\<close> is 5.
\<close>

theorem stim_window:
  "stim st t
     = (if t_start st \<le> t \<and> t < b64_round (t_start st + duration st) then amplitude st else 0)
   \<and> (is_b64 (t_start st + duration st) \<longrightarrow>
        stim st t = (if t_start st \<le> t \<and> t < t_start st + duration st then amplitude st else 0))
   \<and> stim \<lparr>t_start = b64_round (1/10), duration = b64_round (2/10), amplitude = 5\<rparr>
        (b64_round (9/100)) = 0
   \<and> stim \<lparr>t_start = b64_round (1/10), duration = b64_round (2/10), amplitude = 5\<rparr>
        (b64_round (1/10)) = 5
   \<and> stim \<lparr>t_start = b64_round (1/10), duration = b64_round (2/10), amplitude = 5\<rparr>
        (b64_round (29/100)) = 5
   \<and> stim \<lparr>t_start = b64_round (1/10), duration = b64_round (2/10), amplitude = 5\<rparr>
        (b64_round (3/10)) = 5"
proof -
  have a: "stim \<lparr>t_start = b64_round (1/10), duration = b64_round (2/10), amplitude = 5\<rparr>
        (b64_round (9/100)) = 0"
    by (simp add: stim_def b64_sum_1_10_2_10) (simp add: b64_literal_1_10 b64_literal_9_100)
  have b: "stim \<lparr>t_start = b64_round (1/10), duration = b64_round (2/10), amplitude = 5\<rparr>
        (b64_round (1/10)) = 5"
    by (simp add: stim_def b64_sum_1_10_2_10) (simp add: b64_literal_1_10)
  have c: "stim \<lparr>t_start = b64_round (1/10), duration = b64_round (2/10), amplitude = 5\<rparr>
        (b64_round (29/100)) = 5"
    by (simp add: stim_def b64_sum_1_10_2_10) (simp add: b64_literal_1_10 b64_literal_29_100)
  have d: "stim \<lparr>t_start = b64_round (1/10), duration = b64_round (2/10), amplitude = 5\<rparr>
        (b64_round (3/10)) = 5"
    by (simp add: stim_def b64_sum_1_10_2_10) (simp add: b64_literal_1_10 b64_literal_3_10)
  show ?thesis using a b c d by (simp add: stim_def is_b64_def)
qed

theorem stim_window_witness:
  "is_b64 (1/2 + 1) \<and> stim \<lparr>t_start = 1/2, duration = 1, amplitude = 7\<rparr> (3/2) = 0
   \<and> stim \<lparr>t_start = 1/2, duration = 1, amplitude = 7\<rparr> 1 = 7"
proof -
  have h: "is_b64 (t_start \<lparr>t_start = 1/2, duration = 1, amplitude = 7\<rparr>
             + duration \<lparr>t_start = 1/2, duration = 1, amplitude = (7::real)\<rparr>)"
    by (simp add: is_b64_def)
  show ?thesis
    using h stim_window [of "\<lparr>t_start = 1/2, duration = 1, amplitude = 7\<rparr>" "3/2"]
      stim_window [of "\<lparr>t_start = 1/2, duration = 1, amplitude = 7\<rparr>" 1]
    by simp
qed

text \<open>
  Claim C10. An entry with \<open>duration \<le> 0\<close> contributes 0 at every time: the rounded sum
  \<^verbatim>\<open>t_start + duration\<close> is not above the float \<open>t_start\<close>, so the window is empty.
\<close>

theorem stim_empty_window:
  "is_b64 (t_start st) \<Longrightarrow> duration st \<le> 0 \<Longrightarrow> stim st t = 0"
proof -
  assume r: "is_b64 (t_start st)" and d: "duration st \<le> 0"
  have "b64_round (t_start st + duration st) \<le> t_start st"
    using d r by (intro b64_round_le) (simp_all add: is_b64_def)
  then show ?thesis by (simp add: stim_def)
qed

theorem stim_empty_window_witness:
  "is_b64 1 \<and> (- 1/2 :: real) \<le> 0
   \<and> stim \<lparr>t_start = 1, duration = - 1/2, amplitude = 5\<rparr> (3/4) = 0
   \<and> stim \<lparr>t_start = 1, duration = 0, amplitude = 5\<rparr> 1 = 0"
proof -
  have h: "is_b64 1" by (simp add: is_b64_def)
  show ?thesis
    using h stim_empty_window [of "\<lparr>t_start = 1, duration = - 1/2, amplitude = 5\<rparr>" "3/4"]
      stim_empty_window [of "\<lparr>t_start = 1, duration = 0, amplitude = 5\<rparr>" 1]
    by simp
qed

section \<open>The kinetics raise no error\<close>

text \<open>
  Claim C7. The functions \<^verbatim>\<open>calc_rhs\<close>, \<^verbatim>\<open>calc_tau_v_m\<close>, \<^verbatim>\<open>calc_tau_w_m\<close>, \<^verbatim>\<open>calc_tau_so\<close>,
  \<^verbatim>\<open>calc_tau_s\<close>, \<^verbatim>\<open>calc_tau_o\<close> and \<^verbatim>\<open>calc_v_inf\<close> divide by nothing but the literal 2 and
  are embedded without an error result. Each of the seven functions that divide by a
  parameter returns a value, never \<^verbatim>\<open>ZeroDivisionError\<close>, when the time constants it
  divides by are nonzero; the fifteen time constants of \<^verbatim>\<open>get_parameters\<close> are positive.
\<close>

theorem kinetics_total:
  "(tau_v_m \<noteq> 0 \<and> tau_v_p \<noteq> 0 \<longrightarrow>
      calc_v v u theta_v v_inf tau_v_m tau_v_p
        = Inr (if u < theta_v then (v_inf - v) / tau_v_m else - v / tau_v_p))
   \<and> (tau_w_m \<noteq> 0 \<and> tau_w_p \<noteq> 0 \<longrightarrow>
      calc_w w u theta_w w_inf tau_w_m tau_w_p
        = Inr (if u < theta_w then (w_inf - w) / tau_w_m else - w / tau_w_p))
   \<and> (tau_s \<noteq> 0 \<longrightarrow>
      calc_s s u tau_s k_s u_s = Inr (((1 + tanh (k_s * (u - u_s))) / 2 - s) / tau_s))
   \<and> (tau_fi \<noteq> 0 \<longrightarrow>
      calc_Jfi u v theta_v u_u tau_fi
        = Inr (- v * gate_H u theta_v * (u - theta_v) * (u_u - u) / tau_fi))
   \<and> (tau_o \<noteq> 0 \<and> tau_so \<noteq> 0 \<longrightarrow>
      calc_Jso u u_o theta_w tau_o tau_so
        = Inr ((u - u_o) * (1 - gate_H u theta_w) / tau_o + gate_H u theta_w / tau_so))
   \<and> (tau_si \<noteq> 0 \<longrightarrow>
      calc_Jsi u w s theta_w tau_si = Inr (- gate_H u theta_w * w * s / tau_si))
   \<and> (tau_w_inf \<noteq> 0 \<longrightarrow>
      calc_w_inf u theta_o tau_w_inf w_inf_above
        = Inr (if u < theta_o then 1 - u / tau_w_inf else w_inf_above))
   \<and> 0 < par_tau_v1_m get_parameters \<and> 0 < par_tau_v2_m get_parameters
   \<and> 0 < par_tau_v_p get_parameters \<and> 0 < par_tau_w1_m get_parameters
   \<and> 0 < par_tau_w2_m get_parameters \<and> 0 < par_tau_w_p get_parameters
   \<and> 0 < par_tau_fi get_parameters \<and> 0 < par_tau_o1 get_parameters
   \<and> 0 < par_tau_o2 get_parameters \<and> 0 < par_tau_so1 get_parameters
   \<and> 0 < par_tau_so2 get_parameters \<and> 0 < par_tau_s1 get_parameters
   \<and> 0 < par_tau_s2 get_parameters \<and> 0 < par_tau_si get_parameters
   \<and> 0 < par_tau_w_inf get_parameters"
  by (simp add: calc_v_def calc_w_def calc_s_def calc_Jfi_def calc_Jfi_locals_def calc_Jso_def calc_Jsi_def
      calc_w_inf_def truediv_def get_parameters_def b64_round_pos Let_def gate_H_def)

theorem kinetics_total_witness:
  "calc_v 1 0 (3/10) 1 60 2 = Inr 0
   \<and> calc_w 1 1 (1/8) 1 60 200 = Inr (- 1 / 200)
   \<and> calc_s 0 1 2 3 1 = Inr (1 / 4)
   \<and> calc_Jfi 1 1 (1/2) 2 4 = Inr (- 1 / 8)
   \<and> calc_Jso 1 0 (1/8) 6 2 = Inr (1 / 2)
   \<and> calc_Jsi 1 1 1 (1/8) 2 = Inr (- 1 / 2)
   \<and> calc_w_inf 0 1 2 5 = Inr 1"
  using kinetics_total [where tau_v_m = 60 and tau_v_p = 2 and v = 1 and u = 0
      and theta_v = "3/10" and v_inf = 1]
    kinetics_total [where tau_w_m = 60 and tau_w_p = 200 and w = 1 and u = 1
      and theta_w = "1/8" and w_inf = 1]
    kinetics_total [where tau_s = 2 and s = 0 and u = 1 and k_s = 3 and u_s = 1]
    kinetics_total [where tau_fi = 4 and u = 1 and v = 1 and theta_v = "1/2" and u_u = 2]
    kinetics_total [where tau_o = 6 and tau_so = 2 and u = 1 and u_o = 0 and theta_w = "1/8"]
    kinetics_total [where tau_si = 2 and u = 1 and w = 1 and s = 1 and theta_w = "1/8"]
    kinetics_total [where tau_w_inf = 2 and u = 0 and theta_o = 1 and w_inf_above = 5]
  by (simp add: gate_H_def)

section \<open>Summation of the stimuli\<close>

lemma py_sum_Nil [simp]: "py_sum [] = 0"
  by (simp add: py_sum_def)

lemma stim_total_Nil [simp]: "stim_total [] t = 0"
  by (simp add: stim_total_def)

lemma py_sum_pair: "is_b64 x \<Longrightarrow> py_sum [x, y] = b64_round (x + y)"
  by (simp add: py_sum_def is_b64_def)

lemma foldl_round_exact:
  "sums_exact a xs \<Longrightarrow> foldl (\<lambda>acc x. b64_round (acc + x)) a xs = a + sum_list xs"
  by (induction xs arbitrary: a) (simp_all add: is_b64_def)

lemma py_sum_exact: "sums_exact 0 xs \<Longrightarrow> py_sum xs = sum_list xs"
  using foldl_round_exact [of 0 xs] by (simp add: py_sum_def)

lemma is_b64_stim: "is_b64 (amplitude st) \<Longrightarrow> is_b64 (stim st t)"
  by (simp add: stim_def)

lemma stim_total_pair:
  assumes "is_b64 (amplitude a)"
  shows "stim_total [a, b] t = b64_round (stim a t + stim b t)"
  using is_b64_stim [OF assms, of t] by (simp add: stim_total_def py_sum_pair)

lemma stim_total_exact:
  assumes "sums_exact 0 (map (\<lambda>st. stim st t) stims)"
  shows "stim_total stims t = (\<Sum>st\<leftarrow>stims. stim st t)"
  using py_sum_exact [OF assms] by (simp add: stim_total_def)

lemma stim_total_exact_mset:
  assumes "mset stims = mset stims'"
    and "sums_exact 0 (map (\<lambda>st. stim st t) stims)"
    and "sums_exact 0 (map (\<lambda>st. stim st t) stims')"
  shows "stim_total stims t = stim_total stims' t"
proof -
  have "mset (map (\<lambda>st. stim st t) stims) = mset (map (\<lambda>st. stim st t) stims')"
    using assms(1) by (metis mset_map)
  then have "sum_mset (mset (map (\<lambda>st. stim st t) stims))
      = sum_mset (mset (map (\<lambda>st. stim st t) stims'))" by simp
  then have "(\<Sum>st\<leftarrow>stims. stim st t) = (\<Sum>st\<leftarrow>stims'. stim st t)"
    by (simp only: sum_mset_sum_list)
  then show ?thesis by (simp only: stim_total_exact [OF assms(2)] stim_total_exact [OF assms(3)])
qed

lemma step_stimulations:
  "step i (m\<lparr>stimulations := stims\<rparr>)
     = bind_err (step i (m\<lparr>stimulations := []\<rparr>)) (\<lambda>m0.
         Inr (m0\<lparr>stimulations := stims,
                variables := (variables m0)\<lparr>var_u := var_u (variables m0)
                   + dt m * stim_total stims (step_time (dt m) i)\<rparr>\<rparr>))"
  unfolding step_def Let_def
  apply (simp add: bind_err_def split: sum.splits)
  apply (auto simp: algebra_simps)
  done

lemma b64_sum_03_02: "b64_round (b64_round (3/10) + b64_round (1/5)) = 1/2"
  unfolding b64_literal_3_10 b64_literal_2_10 by simp

lemma b64_sum_03_02_01:
  "b64_round (1/2 + b64_round (1/10)) = 5404319552844595 / 2 ^ 53"
  unfolding b64_literal_1_10
  by (subst b64_round_eval [where e = "-53"]) (simp_all add: round_half_even_def power_int_minus)

lemma b64_sum_01_02_03:
  "b64_round (5404319552844596 / 2 ^ 54 + b64_round (3/10)) = 5404319552844596 / 2 ^ 53"
  unfolding b64_literal_3_10
  by (subst b64_round_eval [where e = "-53"]) (simp_all add: round_half_even_def power_int_minus)

lemma py_sum_01_02_03:
  "py_sum [b64_round (1/10), b64_round (1/5), b64_round (3/10)] = 5404319552844596 / 2 ^ 53"
  by (simp only: py_sum_def foldl.simps add_0 b64_round_idem b64_sum_1_10_2_10 b64_sum_01_02_03)

lemma py_sum_03_02_01:
  "py_sum [b64_round (3/10), b64_round (1/5), b64_round (1/10)] = 5404319552844595 / 2 ^ 53"
  by (simp only: py_sum_def foldl.simps add_0 b64_round_idem b64_sum_03_02 b64_sum_03_02_01)

lemma stim_unit_window:
  "stim \<lparr>t_start = 0, duration = 1, amplitude = A\<rparr> 0 = A"
  by (simp add: stim_def)





section \<open>The step returns under the default parameters\<close>

lemma tanh_blend_pos:
  fixes a b :: real
  assumes "0 < a" and "0 < b"
  shows "0 < a + (b - a) * (1 + tanh x) / 2"
proof -
  define c where "c = (1 + tanh x) / 2"
  have c: "0 < c" "c < 1"
    using tanh_real_gt_neg1 [of x] tanh_real_lt_1 [of x] by (simp_all add: c_def)
  have "a + (b - a) * c = (1 - c) * a + c * b" by (simp add: algebra_simps)
  moreover have "0 < (1 - c) * a" using c assms by simp
  moreover have "0 < c * b" using c assms by simp
  ultimately have "0 < a + (b - a) * c" by linarith
  then show ?thesis by (simp add: c_def)
qed

lemma calc_tau_w_m_default_pos:
  "0 < calc_tau_w_m x (par_tau_w1_m get_parameters) (par_tau_w2_m get_parameters) k c"
  unfolding calc_tau_w_m_def
  by (rule tanh_blend_pos) (simp_all add: get_parameters_def)

lemma calc_tau_so_default_pos:
  "0 < calc_tau_so x (par_tau_so1 get_parameters) (par_tau_so2 get_parameters) k c"
  unfolding calc_tau_so_def
  by (rule tanh_blend_pos) (simp_all add: get_parameters_def b64_round_pos)

lemma default_divisors_nonzero:
  "par_tau_v1_m get_parameters \<noteq> 0" "par_tau_v2_m get_parameters \<noteq> 0"
  "par_tau_v_p get_parameters \<noteq> 0" "par_tau_w_p get_parameters \<noteq> 0"
  "par_tau_fi get_parameters \<noteq> 0" "par_tau_o1 get_parameters \<noteq> 0"
  "par_tau_o2 get_parameters \<noteq> 0" "par_tau_s1 get_parameters \<noteq> 0"
  "par_tau_s2 get_parameters \<noteq> 0" "par_tau_si get_parameters \<noteq> 0"
  "par_tau_w_inf get_parameters \<noteq> 0"
  "calc_tau_w_m x (par_tau_w1_m get_parameters) (par_tau_w2_m get_parameters) k c \<noteq> 0"
  "calc_tau_so x (par_tau_so1 get_parameters) (par_tau_so2 get_parameters) k c \<noteq> 0"
  using calc_tau_w_m_default_pos [of x k c] calc_tau_so_default_pos [of x k c]
    b64_round_pos [of "14506/10000"] b64_round_pos [of "11/100"]
    b64_round_pos [of "27342/10000"] b64_round_pos [of "18875/10000"]
    b64_round_pos [of "7/100"]
  by (simp_all add: get_parameters_def)

lemma step_default_total:
  assumes "parameters m = get_parameters"
  shows "\<exists>m'. step i m = Inr m'"
  unfolding step_def Let_def assms
  by (simp add: calc_v_def calc_w_def calc_s_def calc_Jfi_def calc_Jfi_locals_def calc_Jso_def calc_Jsi_def
      calc_w_inf_def calc_tau_v_m_def calc_tau_s_def calc_tau_o_def truediv_def
      default_divisors_nonzero Let_def)

lemma step_frame:
  assumes "step i m = Inr m'"
  shows "parameters m' = parameters m" "dt m' = dt m" "stimulations m' = stimulations m"
    "history m' = history m"
  using assms unfolding step_def Let_def
  by (auto simp: bind_err_def split: sum.splits)

section \<open>The loop of \<^verbatim>\<open>run\<close>\<close>

lemma run_loop_frame:
  "run_loop idx m = Inr m' \<Longrightarrow>
   parameters m' = parameters m \<and> dt m' = dt m \<and> stimulations m' = stimulations m"
proof (induction idx arbitrary: m)
  case Nil
  then show ?case by simp
next
  case (Cons i rest)
  from Cons.prems obtain m1 where s: "step i m = Inr m1"
    and r: "run_loop rest (record_history m1) = Inr m'"
    by (auto simp: bind_err_eq_Inr)
  from Cons.IH [OF r] step_frame [OF s] show ?case by simp
qed

lemma run_loop_default_total:
  "parameters m = get_parameters \<Longrightarrow> \<exists>m'. run_loop idx m = Inr m'"
proof (induction idx arbitrary: m)
  case Nil
  then show ?case by simp
next
  case (Cons i rest)
  from step_default_total [OF Cons.prems, of i] obtain m1 where s: "step i m = Inr m1" ..
  have "parameters (record_history m1) = get_parameters"
    using step_frame(1) [OF s] Cons.prems by simp
  from Cons.IH [OF this] obtain m' where "run_loop rest (record_history m1) = Inr m'" ..
  then show ?case using s by simp
qed

lemma run_loop_append:
  "run_loop (xs @ ys) m = bind_err (run_loop xs m) (run_loop ys)"
proof (induction xs arbitrary: m)
  case Nil
  then show ?case by simp
next
  case (Cons i rest)
  show ?case by (cases "step i m") (simp_all add: Cons.IH)
qed

lemma run_loop_extends:
  "run_loop idx m = Inr m' \<Longrightarrow>
   \<exists>us vs ws ss.
     hist_u (history m') = hist_u (history m) @ us \<and> length us = length idx \<and>
     hist_v (history m') = hist_v (history m) @ vs \<and> length vs = length idx \<and>
     hist_w (history m') = hist_w (history m) @ ws \<and> length ws = length idx \<and>
     hist_s (history m') = hist_s (history m) @ ss \<and> length ss = length idx"
proof (induction idx arbitrary: m)
  case Nil
  then show ?case by simp
next
  case (Cons i rest)
  from Cons.prems obtain m1 where s: "step i m = Inr m1"
    and r: "run_loop rest (record_history m1) = Inr m'"
    by (auto simp: bind_err_eq_Inr)
  from Cons.IH [OF r] obtain us vs ws ss where
    "hist_u (history m') = hist_u (history (record_history m1)) @ us" "length us = length rest"
    "hist_v (history m') = hist_v (history (record_history m1)) @ vs" "length vs = length rest"
    "hist_w (history m') = hist_w (history (record_history m1)) @ ws" "length ws = length rest"
    "hist_s (history m') = hist_s (history (record_history m1)) @ ss" "length ss = length rest"
    by blast
  then have
    "hist_u (history m') = hist_u (history m) @ (var_u (variables m1) # us)
      \<and> length (var_u (variables m1) # us) = length (i # rest)"
    "hist_v (history m') = hist_v (history m) @ (var_v (variables m1) # vs)
      \<and> length (var_v (variables m1) # vs) = length (i # rest)"
    "hist_w (history m') = hist_w (history m) @ (var_w (variables m1) # ws)
      \<and> length (var_w (variables m1) # ws) = length (i # rest)"
    "hist_s (history m') = hist_s (history m) @ (var_s (variables m1) # ss)
      \<and> length (var_s (variables m1) # ss) = length (i # rest)"
    using step_frame(4) [OF s] by simp_all
  then show ?case by blast
qed

lemma run_loop_lengths:
  assumes "run_loop idx m = Inr m'"
  shows "length (hist_u (history m')) = length (hist_u (history m)) + length idx"
    "length (hist_v (history m')) = length (hist_v (history m)) + length idx"
    "length (hist_w (history m')) = length (hist_w (history m)) + length idx"
    "length (hist_s (history m')) = length (hist_s (history m)) + length idx"
  using run_loop_extends [OF assms] by auto

lemma run_loop_snoc_last:
  assumes "run_loop (pre @ [i]) m = Inr mk"
  shows "hist_u (history mk) ! (length (hist_u (history m)) + length pre) = var_u (variables mk)"
    "hist_v (history mk) ! (length (hist_v (history m)) + length pre) = var_v (variables mk)"
    "hist_w (history mk) ! (length (hist_w (history m)) + length pre) = var_w (variables mk)"
    "hist_s (history mk) ! (length (hist_s (history m)) + length pre) = var_s (variables mk)"
proof -
  from assms obtain m1 m2 where p: "run_loop pre m = Inr m1" and s: "step i m1 = Inr m2"
    and k: "mk = record_history m2"
    by (auto simp: run_loop_append bind_err_eq_Inr)
  note len = run_loop_lengths [OF p]
  note h = step_frame(4) [OF s]
  show "hist_u (history mk) ! (length (hist_u (history m)) + length pre) = var_u (variables mk)"
    using len(1) h by (simp add: k nth_append)
  show "hist_v (history mk) ! (length (hist_v (history m)) + length pre) = var_v (variables mk)"
    using len(2) h by (simp add: k nth_append)
  show "hist_w (history mk) ! (length (hist_w (history m)) + length pre) = var_w (variables mk)"
    using len(3) h by (simp add: k nth_append)
  show "hist_s (history mk) ! (length (hist_s (history m)) + length pre) = var_s (variables mk)"
    using len(4) h by (simp add: k nth_append)
qed

lemma run_loop_entry:
  assumes r: "run_loop idx m = Inr m'" and k: "k < length idx"
  shows "\<exists>mk. run_loop (take (Suc k) idx) m = Inr mk
    \<and> hist_u (history m') ! (length (hist_u (history m)) + k) = var_u (variables mk)
    \<and> hist_v (history m') ! (length (hist_v (history m)) + k) = var_v (variables mk)
    \<and> hist_w (history m') ! (length (hist_w (history m)) + k) = var_w (variables mk)
    \<and> hist_s (history m') ! (length (hist_s (history m)) + k) = var_s (variables mk)"
proof -
  have "run_loop (take (Suc k) idx @ drop (Suc k) idx) m = Inr m'" using r by simp
  then obtain mk where a: "run_loop (take (Suc k) idx) m = Inr mk"
    and b: "run_loop (drop (Suc k) idx) mk = Inr m'"
    by (auto simp only: run_loop_append bind_err_eq_Inr)
  have t: "take (Suc k) idx = take k idx @ [idx ! k]" using k by (rule take_Suc_conv_app_nth)
  have lk: "length (take k idx) = k" using k by simp
  note last = run_loop_snoc_last [OF a [unfolded t], unfolded lk]
  note la = run_loop_lengths [OF a]
  have lt: "length (take (Suc k) idx) = Suc k" using k by simp
  from run_loop_extends [OF b] obtain us vs ws ss where e:
    "hist_u (history m') = hist_u (history mk) @ us"
    "hist_v (history m') = hist_v (history mk) @ vs"
    "hist_w (history m') = hist_w (history mk) @ ws"
    "hist_s (history m') = hist_s (history mk) @ ss"
    by blast
  have "hist_u (history m') ! (length (hist_u (history m)) + k) = var_u (variables mk)"
    using last(1) la(1) lt by (simp add: e(1) nth_append)
  moreover have "hist_v (history m') ! (length (hist_v (history m)) + k) = var_v (variables mk)"
    using last(2) la(2) lt by (simp add: e(2) nth_append)
  moreover have "hist_w (history m') ! (length (hist_w (history m)) + k) = var_w (variables mk)"
    using last(3) la(3) lt by (simp add: e(3) nth_append)
  moreover have "hist_s (history m') ! (length (hist_s (history m)) + k) = var_s (variables mk)"
    using last(4) la(4) lt by (simp add: e(4) nth_append)
  ultimately show ?thesis using a by blast
qed

lemma step_history:
  "step i (m\<lparr>history := h\<rparr>)
     = (case step i m of Inl e \<Rightarrow> Inl e | Inr r \<Rightarrow> Inr (r\<lparr>history := h\<rparr>))"
  unfolding step_def Let_def
  by (simp add: bind_err_def split: sum.splits)

lemma iterate_step_history:
  "iterate_step idx (m\<lparr>history := h\<rparr>)
     = (case iterate_step idx m of Inl e \<Rightarrow> Inl e | Inr r \<Rightarrow> Inr (r\<lparr>history := h\<rparr>))"
proof (induction idx arbitrary: m)
  case Nil
  then show ?case by simp
next
  case (Cons i rest)
  show ?case by (cases "step i m") (simp_all add: step_history Cons.IH)
qed

lemma iterate_step_keeps_history:
  "iterate_step idx m = Inr r \<Longrightarrow> history r = history m"
proof (induction idx arbitrary: m)
  case Nil
  then show ?case by simp
next
  case (Cons i rest)
  from Cons.prems obtain m1 where s: "step i m = Inr m1" and r: "iterate_step rest m1 = Inr r"
    by (auto simp: bind_err_eq_Inr)
  from Cons.IH [OF r] step_frame(4) [OF s] show ?case by simp
qed

lemma run_loop_iterate_step:
  "run_loop idx m = Inr m' \<Longrightarrow> iterate_step idx m = Inr (m'\<lparr>history := history m\<rparr>)"
proof (induction idx arbitrary: m)
  case Nil
  then show ?case by simp
next
  case (Cons i rest)
  from Cons.prems obtain m1 where s: "step i m = Inr m1"
    and r: "run_loop rest (record_history m1) = Inr m'"
    by (auto simp: bind_err_eq_Inr)
  have rec: "record_history m1 = m1\<lparr>history := history (record_history m1)\<rparr>"
    by (simp add: record_history_def)
  have "iterate_step rest (m1\<lparr>history := history (record_history m1)\<rparr>)
      = Inr (m'\<lparr>history := history (record_history m1)\<rparr>)"
    using Cons.IH [OF r] by (subst rec [symmetric])
  then obtain b where b: "iterate_step rest m1 = Inr b"
    and eq: "b\<lparr>history := history (record_history m1)\<rparr>
      = m'\<lparr>history := history (record_history m1)\<rparr>"
    by (cases "iterate_step rest m1") (auto simp: iterate_step_history)
  have "(b\<lparr>history := history (record_history m1)\<rparr>)\<lparr>history := history m1\<rparr>
      = (m'\<lparr>history := history (record_history m1)\<rparr>)\<lparr>history := history m1\<rparr>"
    by (simp only: eq)
  then have "b\<lparr>history := history m1\<rparr> = m'\<lparr>history := history m1\<rparr>" by simp
  moreover have "history b = history m1" using b by (rule iterate_step_keeps_history)
  ultimately have "iterate_step rest m1 = Inr (m'\<lparr>history := history m1\<rparr>)"
    using b by (metis model.update_convs(5) model.surjective model.select_convs(5))
  then show ?case using s step_frame(4) [OF s] by simp
qed

lemma run_loop_iterate_step_variables:
  assumes "run_loop idx m = Inr m'"
  shows "\<exists>r. iterate_step idx m = Inr r \<and> variables r = variables m'"
  using run_loop_iterate_step [OF assms] by simp

lemma b64_max_lower: "2 ^ 53 \<le> b64_max"
proof -
  have "(2::real) ^ 53 \<le> (2 ^ 53 - 1) * 2 ^ 1" by simp
  also have "\<dots> \<le> (2 ^ 53 - 1) * 2 ^ 971"
    by (intro mult_left_mono power_increasing) simp_all
  finally show ?thesis by (simp only: b64_max_def)
qed

lemma n_steps_zero: "n_steps t 0 = Inl ZeroDivisionError"
  by (simp add: n_steps_def truediv_def)

lemma n_steps_overflow:
  "d \<noteq> 0 \<Longrightarrow> b64_max < \<bar>b64_round (t / d)\<bar> \<Longrightarrow> n_steps t d = Inl OverflowError"
  by (simp add: n_steps_def truediv_def)

lemma n_steps_nonzero:
  "d \<noteq> 0 \<Longrightarrow> \<bar>b64_round (t / d)\<bar> \<le> b64_max \<Longrightarrow>
   n_steps t d = Inr (round_half_even (b64_round (t / d)))"
  by (simp add: n_steps_def truediv_def)

lemma n_steps_cases:
  "n_steps t d = Inl ZeroDivisionError \<or> n_steps t d = Inl OverflowError
   \<or> n_steps t d = Inr (round_half_even (b64_round (t / d)))"
  by (simp add: n_steps_def truediv_def)

lemma run_nonzero:
  "dt m \<noteq> 0 \<Longrightarrow> \<bar>b64_round (t / dt m)\<bar> \<le> b64_max \<Longrightarrow>
   run t m = run_loop (py_range (round_half_even (b64_round (t / dt m)))) m"
  by (simp add: run_def n_steps_nonzero)

lemma run_zero: "dt m = 0 \<Longrightarrow> run t m = Inl ZeroDivisionError"
  by (simp add: run_def n_steps_zero)

lemma run_overflow:
  "dt m \<noteq> 0 \<Longrightarrow> b64_max < \<bar>b64_round (t / dt m)\<bar> \<Longrightarrow> run t m = Inl OverflowError"
  by (simp add: run_def n_steps_overflow)

lemma length_py_range [simp]: "length (py_range n) = nat n"
  by (simp add: py_range_def)

lemma take_py_range: "k \<le> nat n \<Longrightarrow> take k (py_range n) = py_range (int k)"
  by (simp add: py_range_def take_map)

lemma run_object_default:
  assumes "parameters m = get_parameters"
  shows "\<exists>m'. run_object t m = Some m'
    \<and> run_loop (call_indices (dt m) [t]) m = Inr m'"
proof (cases "n_steps t (dt m)")
  case (Inl e)
  then show ?thesis by (simp add: run_object_def call_indices_def)
next
  case (Inr n)
  from run_loop_default_total [OF assms, of "py_range n"] obtain m'
    where "run_loop (py_range n) m = Inr m'" ..
  then show ?thesis using Inr by (simp add: run_object_def call_indices_def)
qed

lemma call_indices_Cons:
  "call_indices d (t # ts) = call_indices d [t] @ call_indices d ts"
  by (simp add: call_indices_def)

lemma run_calls_indices:
  assumes "parameters m = get_parameters"
  shows "\<exists>m'. run_calls ts m = Some m' \<and> run_loop (call_indices (dt m) ts) m = Inr m'"
  using assms
proof (induction ts arbitrary: m)
  case Nil
  then show ?case by (simp add: call_indices_def)
next
  case (Cons t ts)
  from run_object_default [OF Cons.prems, of t] obtain m1 where
    o: "run_object t m = Some m1" and l: "run_loop (call_indices (dt m) [t]) m = Inr m1"
    by blast
  have f: "parameters m1 = get_parameters" "dt m1 = dt m"
    using run_loop_frame [OF l] Cons.prems by simp_all
  from Cons.IH [OF f(1)] obtain m' where
    "run_calls ts m1 = Some m'" "run_loop (call_indices (dt m) ts) m1 = Inr m'"
    using f(2) by auto
  then show ?case using o l
    by (simp add: call_indices_Cons [of "dt m" t ts] run_loop_append)
qed

section \<open>The number of steps of \<^verbatim>\<open>run\<close>\<close>

lemma small_le_b64_max: "\<bar>x\<bar> \<le> 2 ^ 53 \<Longrightarrow> \<bar>x\<bar> \<le> b64_max"
  using b64_max_lower by linarith

lemma b64_quotient_1_03:
  "b64_round (1 / b64_round (3/10)) = 7505999378950827 / 2 ^ 51"
  unfolding b64_literal_3_10
  by (subst b64_round_eval [where e = "-51"]) (simp_all add: round_half_even_def power_int_minus)

lemma n_steps_1_03: "n_steps 1 (b64_round (3/10)) = Inr 3"
proof -
  have "b64_round (3/10) \<noteq> 0" by (simp add: b64_literal_3_10)
  moreover have "\<bar>b64_round (1 / b64_round (3/10))\<bar> \<le> b64_max"
    unfolding b64_quotient_1_03 by (rule small_le_b64_max) simp
  ultimately have "n_steps 1 (b64_round (3/10))
      = Inr (round_half_even (b64_round (1 / b64_round (3/10))))"
    by (rule n_steps_nonzero)
  also have "round_half_even (b64_round (1 / b64_round (3/10))) = 3"
    unfolding b64_quotient_1_03 by (simp add: round_half_even_def)
  finally show ?thesis .
qed

text \<open>
  For a negative \<^verbatim>\<open>t_max\<close> the step count \<^verbatim>\<open>n_steps\<close> is negative and \<^verbatim>\<open>range(n_steps)\<close> is empty:
  \<^verbatim>\<open>run(-1.0)\<close> with \<^verbatim>\<open>dt = 0.5\<close> computes \<open>- 2\<close>, performs no step and leaves the history
  empty, so its length is not \<^verbatim>\<open>n_steps\<close>.
\<close>

theorem run_step_count_counterexample:
  "n_steps (- 1) (1/2) = Inr (- 2)
   \<and> run (- 1) (BuenoOrovio0D (1/2) []) = Inr (BuenoOrovio0D (1/2) [])
   \<and> int (length (hist_u (history (projr (run (- 1) (BuenoOrovio0D (1/2) [])))))) \<noteq> - 2"
proof -
  have "\<bar>b64_round (- 1 / (1/2))\<bar> \<le> b64_max"
    by (rule small_le_b64_max) (simp add: b64_round_uminus)
  then have n: "n_steps (- 1) (1/2) = Inr (- 2)"
    using n_steps_nonzero [of "1/2" "- 1"]
    by (simp add: b64_round_uminus round_half_even_uminus)
  have r: "run (- 1) (BuenoOrovio0D (1/2) []) = Inr (BuenoOrovio0D (1/2) [])"
    by (simp add: run_def n py_range_def)
  show ?thesis using n r by simp
qed

lemma run_default:
  assumes p: "parameters m = get_parameters" and d: "dt m \<noteq> 0"
    and o: "\<bar>b64_round (t_max / dt m)\<bar> \<le> b64_max"
  shows "\<exists>m' r. run t_max m = Inr m'
    \<and> iterate_step (py_range (round_half_even (b64_round (t_max / dt m)))) m = Inr r \<and> variables m' = variables r
    \<and> length (hist_u (history m')) = length (hist_u (history m)) + nat (round_half_even (b64_round (t_max / dt m)))
    \<and> length (hist_v (history m')) = length (hist_v (history m)) + nat (round_half_even (b64_round (t_max / dt m)))
    \<and> length (hist_w (history m')) = length (hist_w (history m)) + nat (round_half_even (b64_round (t_max / dt m)))
    \<and> length (hist_s (history m')) = length (hist_s (history m)) + nat (round_half_even (b64_round (t_max / dt m)))
    \<and> take (length (hist_u (history m))) (hist_u (history m')) = hist_u (history m)
    \<and> take (length (hist_v (history m))) (hist_v (history m')) = hist_v (history m)
    \<and> take (length (hist_w (history m))) (hist_w (history m')) = hist_w (history m)
    \<and> take (length (hist_s (history m))) (hist_s (history m')) = hist_s (history m)
    \<and> (\<forall>k<nat (round_half_even (b64_round (t_max / dt m))).
         \<exists>mk. iterate_step (py_range (int k + 1)) m = Inr mk
          \<and> hist_u (history m') ! (length (hist_u (history m)) + k) = var_u (variables mk)
          \<and> hist_v (history m') ! (length (hist_v (history m)) + k) = var_v (variables mk)
          \<and> hist_w (history m') ! (length (hist_w (history m)) + k) = var_w (variables mk)
          \<and> hist_s (history m') ! (length (hist_s (history m)) + k) = var_s (variables mk))"
proof -
  define n where "n = round_half_even (b64_round (t_max / dt m))"
  have run: "run t_max m = run_loop (py_range n) m" using d o by (simp add: run_nonzero n_def)
  from run_loop_default_total [OF p, of "py_range n"] obtain m'
    where m': "run_loop (py_range n) m = Inr m'" ..
  from run_loop_iterate_step_variables [OF m'] obtain r
    where r: "iterate_step (py_range n) m = Inr r" "variables r = variables m'" by blast
  note len = run_loop_lengths [OF m']
  from run_loop_extends [OF m'] obtain us vs ws ss where ext:
    "hist_u (history m') = hist_u (history m) @ us"
    "hist_v (history m') = hist_v (history m) @ vs"
    "hist_w (history m') = hist_w (history m) @ ws"
    "hist_s (history m') = hist_s (history m) @ ss"
    by blast
  have ent: "\<exists>mk. iterate_step (py_range (int k + 1)) m = Inr mk
          \<and> hist_u (history m') ! (length (hist_u (history m)) + k) = var_u (variables mk)
          \<and> hist_v (history m') ! (length (hist_v (history m)) + k) = var_v (variables mk)
          \<and> hist_w (history m') ! (length (hist_w (history m)) + k) = var_w (variables mk)
          \<and> hist_s (history m') ! (length (hist_s (history m)) + k) = var_s (variables mk)"
    if k: "k < nat n" for k
  proof -
    have "k < length (py_range n)" using k by simp
    from run_loop_entry [OF m' this] obtain mk where
      a: "run_loop (take (Suc k) (py_range n)) m = Inr mk"
      and b: "hist_u (history m') ! (length (hist_u (history m)) + k) = var_u (variables mk)"
        "hist_v (history m') ! (length (hist_v (history m)) + k) = var_v (variables mk)"
        "hist_w (history m') ! (length (hist_w (history m)) + k) = var_w (variables mk)"
        "hist_s (history m') ! (length (hist_s (history m)) + k) = var_s (variables mk)"
      by blast
    have "take (Suc k) (py_range n) = py_range (int (Suc k))"
      using k by (intro take_py_range) simp
    then have "run_loop (py_range (int k + 1)) m = Inr mk" using a by (simp add: add.commute)
    from run_loop_iterate_step_variables [OF this] obtain q
      where "iterate_step (py_range (int k + 1)) m = Inr q" "variables q = variables mk"
      by blast
    then show ?thesis using b by auto
  qed
  have "run t_max m = Inr m'" using run m' by simp
  then show ?thesis
    unfolding n_def [symmetric] using r len ent ext by (intro exI [of _ m'] exI [of _ r]) simp
qed

text \<open>
  Claim C3, amended. On a model with the default parameters, a nonzero time step and a
  float quotient \<^verbatim>\<open>t_max/dt\<close> that does not overflow, \<^verbatim>\<open>run(t_max)\<close> computes
  \<open>n = round (t_max / dt)\<close> (rounded half to even) and returns. Its final state is the one
  reached by calling \<^verbatim>\<open>step\<close> with the indices \<open>0, \<dots>, n - 1\<close> in this order, that is
  \<open>nat n\<close> times: \<open>n\<close> times when \<open>n \<ge> 0\<close> and not at all when \<open>n < 0\<close>. Each history list
  keeps its entries and gains \<open>nat n\<close>; the entry appended \<open>k\<close>-th (from 0) is the state after
  \<^verbatim>\<open>step\<close> was called with \<open>0, \<dots>, k\<close>. Where the quotient overflows \<^verbatim>\<open>run\<close> raises
  \<^verbatim>\<open>OverflowError\<close>, with the time step 0 \<^verbatim>\<open>ZeroDivisionError\<close>. With \<^verbatim>\<open>dt = 0.3\<close>, \<^verbatim>\<open>run(1.0)\<close>
  computes 3 and a new model has a history of length 3 afterwards.
\<close>

theorem run_step_count:
  "(parameters m = get_parameters \<and> dt m \<noteq> 0 \<and> \<bar>b64_round (t_max / dt m)\<bar> \<le> b64_max \<longrightarrow>
      (\<exists>n m' r. n_steps t_max (dt m) = Inr n
        \<and> n = round_half_even (b64_round (t_max / dt m))
        \<and> run t_max m = Inr m'
    \<and> iterate_step (py_range n) m = Inr r \<and> variables m' = variables r
    \<and> length (hist_u (history m')) = length (hist_u (history m)) + nat n
    \<and> length (hist_v (history m')) = length (hist_v (history m)) + nat n
    \<and> length (hist_w (history m')) = length (hist_w (history m)) + nat n
    \<and> length (hist_s (history m')) = length (hist_s (history m)) + nat n
    \<and> take (length (hist_u (history m))) (hist_u (history m')) = hist_u (history m)
    \<and> take (length (hist_v (history m))) (hist_v (history m')) = hist_v (history m)
    \<and> take (length (hist_w (history m))) (hist_w (history m')) = hist_w (history m)
    \<and> take (length (hist_s (history m))) (hist_s (history m')) = hist_s (history m)
    \<and> (\<forall>k<nat n.
         \<exists>mk. iterate_step (py_range (int k + 1)) m = Inr mk
          \<and> hist_u (history m') ! (length (hist_u (history m)) + k) = var_u (variables mk)
          \<and> hist_v (history m') ! (length (hist_v (history m)) + k) = var_v (variables mk)
          \<and> hist_w (history m') ! (length (hist_w (history m)) + k) = var_w (variables mk)
          \<and> hist_s (history m') ! (length (hist_s (history m)) + k) = var_s (variables mk))))
   \<and> (dt m \<noteq> 0 \<and> b64_max < \<bar>b64_round (t_max / dt m)\<bar> \<longrightarrow> run t_max m = Inl OverflowError)
   \<and> (dt m = 0 \<longrightarrow> run t_max m = Inl ZeroDivisionError)
   \<and> n_steps 1 (b64_round (3/10)) = Inr 3
   \<and> (\<exists>m'. run 1 (BuenoOrovio0D (b64_round (3/10)) stims) = Inr m'
        \<and> length (hist_u (history m')) = 3 \<and> length (hist_v (history m')) = 3
        \<and> length (hist_w (history m')) = 3 \<and> length (hist_s (history m')) = 3)"
proof -
  have gen: "\<exists>n m' r. n_steps t_max (dt m) = Inr n
        \<and> n = round_half_even (b64_round (t_max / dt m))
        \<and> run t_max m = Inr m'
    \<and> iterate_step (py_range n) m = Inr r \<and> variables m' = variables r
    \<and> length (hist_u (history m')) = length (hist_u (history m)) + nat n
    \<and> length (hist_v (history m')) = length (hist_v (history m)) + nat n
    \<and> length (hist_w (history m')) = length (hist_w (history m)) + nat n
    \<and> length (hist_s (history m')) = length (hist_s (history m)) + nat n
    \<and> take (length (hist_u (history m))) (hist_u (history m')) = hist_u (history m)
    \<and> take (length (hist_v (history m))) (hist_v (history m')) = hist_v (history m)
    \<and> take (length (hist_w (history m))) (hist_w (history m')) = hist_w (history m)
    \<and> take (length (hist_s (history m))) (hist_s (history m')) = hist_s (history m)
    \<and> (\<forall>k<nat n.
         \<exists>mk. iterate_step (py_range (int k + 1)) m = Inr mk
          \<and> hist_u (history m') ! (length (hist_u (history m)) + k) = var_u (variables mk)
          \<and> hist_v (history m') ! (length (hist_v (history m)) + k) = var_v (variables mk)
          \<and> hist_w (history m') ! (length (hist_w (history m)) + k) = var_w (variables mk)
          \<and> hist_s (history m') ! (length (hist_s (history m)) + k) = var_s (variables mk))"
    if p: "parameters m = get_parameters" and d: "dt m \<noteq> 0"
      and o: "\<bar>b64_round (t_max / dt m)\<bar> \<le> b64_max"
    using run_default [OF p d o] n_steps_nonzero [OF d o] by simp
  have d03: "dt (BuenoOrovio0D (b64_round (3/10)) stims) \<noteq> 0"
    by (simp add: b64_literal_3_10)
  have o03: "\<bar>b64_round (1 / dt (BuenoOrovio0D (b64_round (3/10)) stims))\<bar> \<le> b64_max"
    unfolding BuenoOrovio0D_fields b64_quotient_1_03 by (rule small_le_b64_max) simp
  have r3: "round_half_even (b64_round (1 / b64_round (3/10))) = 3"
    unfolding b64_quotient_1_03 by (simp add: round_half_even_def)
  have "parameters (BuenoOrovio0D (b64_round (3/10)) stims) = get_parameters" by simp
  from run_default [OF this d03 o03] obtain m' where
    "run 1 (BuenoOrovio0D (b64_round (3/10)) stims) = Inr m'"
    "length (hist_u (history m')) = nat (round_half_even (b64_round (1 / b64_round (3/10))))"
    "length (hist_v (history m')) = nat (round_half_even (b64_round (1 / b64_round (3/10))))"
    "length (hist_w (history m')) = nat (round_half_even (b64_round (1 / b64_round (3/10))))"
    "length (hist_s (history m')) = nat (round_half_even (b64_round (1 / b64_round (3/10))))"
    by auto
  then have ex: "\<exists>m'. run 1 (BuenoOrovio0D (b64_round (3/10)) stims) = Inr m'
        \<and> length (hist_u (history m')) = 3 \<and> length (hist_v (history m')) = 3
        \<and> length (hist_w (history m')) = 3 \<and> length (hist_s (history m')) = 3"
    by (simp add: r3)
  show ?thesis using gen n_steps_1_03 ex run_overflow [of m t_max] run_zero [of m t_max] by blast
qed

theorem run_step_count_witness:
  "parameters (BuenoOrovio0D (1/2) []) = get_parameters \<and> dt (BuenoOrovio0D (1/2) []) \<noteq> 0
   \<and> \<bar>b64_round (1 / dt (BuenoOrovio0D (1/2) []))\<bar> \<le> b64_max
   \<and> n_steps 1 (dt (BuenoOrovio0D (1/2) [])) = Inr 2
   \<and> (\<exists>m' r mk. run 1 (BuenoOrovio0D (1/2) []) = Inr m'
        \<and> iterate_step [0, 1] (BuenoOrovio0D (1/2) []) = Inr r \<and> variables m' = variables r
        \<and> length (hist_u (history m')) = 2 \<and> length (hist_s (history m')) = 2
        \<and> step 0 (BuenoOrovio0D (1/2) []) = Inr mk
        \<and> hist_u (history m') ! 0 = var_u (variables mk)
        \<and> hist_s (history m') ! 0 = var_s (variables mk))
   \<and> run 1 (BuenoOrovio0D 0 []) = Inl ZeroDivisionError"
proof -
  let ?m = "BuenoOrovio0D (1/2) []"
  have o: "\<bar>b64_round (1 / dt ?m)\<bar> \<le> b64_max" by (rule small_le_b64_max) simp
  have h: "parameters ?m = get_parameters \<and> dt ?m \<noteq> 0
      \<and> \<bar>b64_round (1 / dt ?m)\<bar> \<le> b64_max"
    using o by simp
  note T = run_step_count [of ?m 1, THEN conjunct1, rule_format, OF h]
  from T obtain n m' r where
    n: "n_steps 1 (dt ?m) = Inr n" "n = round_half_even (b64_round (1 / dt ?m))"
    and m': "run 1 ?m = Inr m'" "iterate_step (py_range n) ?m = Inr r"
      "variables m' = variables r"
      "length (hist_u (history m')) = length (hist_u (history ?m)) + nat n"
      "length (hist_s (history m')) = length (hist_s (history ?m)) + nat n"
    and ent: "\<forall>k<nat n. \<exists>mk. iterate_step (py_range (int k + 1)) ?m = Inr mk
        \<and> hist_u (history m') ! (length (hist_u (history ?m)) + k) = var_u (variables mk)
        \<and> hist_s (history m') ! (length (hist_s (history ?m)) + k) = var_s (variables mk)"
    by blast
  have n2: "n = 2" using n(2) by simp
  have r2: "py_range 2 = [0, 1]" by (simp add: py_range_def upt_rec numeral_2_eq_2)
  have r1: "py_range 1 = [0]" by (simp add: py_range_def)
  have "(0::nat) < nat n" using n2 by simp
  with ent obtain mk where "iterate_step (py_range (int 0 + 1)) ?m = Inr mk"
    "hist_u (history m') ! (length (hist_u (history ?m)) + 0) = var_u (variables mk)"
    "hist_s (history m') ! (length (hist_s (history ?m)) + 0) = var_s (variables mk)"
    by blast
  then have mk: "step 0 ?m = Inr mk" "hist_u (history m') ! 0 = var_u (variables mk)"
    "hist_s (history m') ! 0 = var_s (variables mk)"
    by (simp_all add: r1 bind_err_eq_Inr)
  have z: "run 1 (BuenoOrovio0D 0 []) = Inl ZeroDivisionError"
    using run_step_count [of "BuenoOrovio0D 0 []" 1] by simp
  have "iterate_step [0, 1] ?m = Inr r" using m'(2) by (simp add: n2 r2)
  then show ?thesis using h n(1) m'(1,3,4,5) n2 mk z by auto
qed

section \<open>The history over a sequence of calls\<close>

lemma call_indices_append:
  "call_indices d (ts @ ts') = call_indices d ts @ call_indices d ts'"
  by (simp add: call_indices_def)

lemma length_call_indices:
  "length (call_indices d ts)
     = (\<Sum>t\<leftarrow>ts. case n_steps t d of Inl e \<Rightarrow> 0 | Inr n \<Rightarrow> nat n)"
proof (induction ts)
  case Nil
  then show ?case by (simp add: call_indices_def)
next
  case (Cons t ts)
  have "length (call_indices d [t]) = (case n_steps t d of Inl e \<Rightarrow> 0 | Inr n \<Rightarrow> nat n)"
    by (simp add: call_indices_def split: sum.splits)
  then show ?case using Cons.IH by (simp add: call_indices_Cons [of d t ts])
qed

lemma n_steps_small:
  "d \<noteq> 0 \<Longrightarrow> \<bar>b64_round (t / d)\<bar> \<le> 2 ^ 53 \<Longrightarrow>
   n_steps t d = Inr (round_half_even (b64_round (t / d)))"
  by (intro n_steps_nonzero small_le_b64_max)

text \<open>
  Claim C9. After any sequence of calls of \<^verbatim>\<open>run\<close> on a new model, raising calls included,
  the four history lists have the same length, the number of calls of \<^verbatim>\<open>step\<close> performed;
  the state is the one reached by these calls of \<^verbatim>\<open>step\<close> in their order; the entry at
  index \<open>k\<close> is the value of the variable after the first \<open>k + 1\<close> of them; and further
  calls leave the entries in place. With the time step 0 every call raises before any
  step, and no step is performed.
\<close>

theorem history_invariant:
  "(\<exists>m' r. run_calls ts (BuenoOrovio0D d stims) = Some m'
      \<and> iterate_step (call_indices d ts) (BuenoOrovio0D d stims) = Inr r \<and> variables m' = variables r
      \<and> length (call_indices d ts)
          = (\<Sum>t\<leftarrow>ts. case n_steps t d of Inl e \<Rightarrow> 0 | Inr n \<Rightarrow> nat n)
      \<and> length (hist_u (history m')) = length (call_indices d ts)
      \<and> length (hist_v (history m')) = length (call_indices d ts)
      \<and> length (hist_w (history m')) = length (call_indices d ts)
      \<and> length (hist_s (history m')) = length (call_indices d ts)
      \<and> (\<forall>k<length (call_indices d ts).
           \<exists>mk. iterate_step (take (Suc k) (call_indices d ts)) (BuenoOrovio0D d stims) = Inr mk
              \<and> hist_u (history m') ! k = var_u (variables mk)
              \<and> hist_v (history m') ! k = var_v (variables mk)
              \<and> hist_w (history m') ! k = var_w (variables mk)
              \<and> hist_s (history m') ! k = var_s (variables mk))
      \<and> (\<exists>m''. run_calls (ts @ ts') (BuenoOrovio0D d stims) = Some m''
            \<and> take (length (hist_u (history m'))) (hist_u (history m'')) = hist_u (history m')
            \<and> take (length (hist_v (history m'))) (hist_v (history m'')) = hist_v (history m')
            \<and> take (length (hist_w (history m'))) (hist_w (history m'')) = hist_w (history m')
            \<and> take (length (hist_s (history m'))) (hist_s (history m'')) = hist_s (history m')))
   \<and> call_indices 0 ts = []"
proof -
  let ?m0 = "BuenoOrovio0D d stims"
  let ?idx = "call_indices d ts"
  have p0: "parameters ?m0 = get_parameters" by simp
  have d0: "dt ?m0 = d" by simp
  from run_calls_indices [OF p0, of ts] obtain m' where
    c: "run_calls ts ?m0 = Some m'" and m': "run_loop ?idx ?m0 = Inr m'"
    by (auto simp: d0)
  from run_calls_indices [OF p0, of "ts @ ts'"] obtain m'' where
    c2: "run_calls (ts @ ts') ?m0 = Some m''"
    and l2: "run_loop (?idx @ call_indices d ts') ?m0 = Inr m''"
    by (auto simp: d0 call_indices_append)
  from l2 have m'': "run_loop (call_indices d ts') m' = Inr m''"
    by (simp add: run_loop_append m')
  from run_loop_iterate_step_variables [OF m'] obtain r where
    r: "iterate_step ?idx ?m0 = Inr r" "variables r = variables m'" by blast
  note len = run_loop_lengths [OF m', simplified]
  from run_loop_extends [OF m''] obtain us vs ws ss where ext:
    "hist_u (history m'') = hist_u (history m') @ us"
    "hist_v (history m'') = hist_v (history m') @ vs"
    "hist_w (history m'') = hist_w (history m') @ ws"
    "hist_s (history m'') = hist_s (history m') @ ss"
    by blast
  have ent: "\<exists>mk. iterate_step (take (Suc k) ?idx) ?m0 = Inr mk
              \<and> hist_u (history m') ! k = var_u (variables mk)
              \<and> hist_v (history m') ! k = var_v (variables mk)
              \<and> hist_w (history m') ! k = var_w (variables mk)
              \<and> hist_s (history m') ! k = var_s (variables mk)"
    if k: "k < length ?idx" for k
  proof -
    from run_loop_entry [OF m' k] obtain mk where
      a: "run_loop (take (Suc k) ?idx) ?m0 = Inr mk"
      and b: "hist_u (history m') ! k = var_u (variables mk)"
        "hist_v (history m') ! k = var_v (variables mk)"
        "hist_w (history m') ! k = var_w (variables mk)"
        "hist_s (history m') ! k = var_s (variables mk)"
      by auto
    from run_loop_iterate_step_variables [OF a] obtain q where
      "iterate_step (take (Suc k) ?idx) ?m0 = Inr q" "variables q = variables mk" by blast
    then show ?thesis using b by auto
  qed
  have pre: "\<exists>m''. run_calls (ts @ ts') ?m0 = Some m''
            \<and> take (length (hist_u (history m'))) (hist_u (history m'')) = hist_u (history m')
            \<and> take (length (hist_v (history m'))) (hist_v (history m'')) = hist_v (history m')
            \<and> take (length (hist_w (history m'))) (hist_w (history m'')) = hist_w (history m')
            \<and> take (length (hist_s (history m'))) (hist_s (history m'')) = hist_s (history m')"
    using c2 ext by simp
  have main: "\<exists>m' r. run_calls ts ?m0 = Some m'
      \<and> iterate_step (call_indices d ts) ?m0 = Inr r \<and> variables m' = variables r
      \<and> length (call_indices d ts)
          = (\<Sum>t\<leftarrow>ts. case n_steps t d of Inl e \<Rightarrow> 0 | Inr n \<Rightarrow> nat n)
      \<and> length (hist_u (history m')) = length (call_indices d ts)
      \<and> length (hist_v (history m')) = length (call_indices d ts)
      \<and> length (hist_w (history m')) = length (call_indices d ts)
      \<and> length (hist_s (history m')) = length (call_indices d ts)
      \<and> (\<forall>k<length (call_indices d ts).
           \<exists>mk. iterate_step (take (Suc k) (call_indices d ts)) ?m0 = Inr mk
              \<and> hist_u (history m') ! k = var_u (variables mk)
              \<and> hist_v (history m') ! k = var_v (variables mk)
              \<and> hist_w (history m') ! k = var_w (variables mk)
              \<and> hist_s (history m') ! k = var_s (variables mk))
      \<and> (\<exists>m''. run_calls (ts @ ts') ?m0 = Some m''
            \<and> take (length (hist_u (history m'))) (hist_u (history m'')) = hist_u (history m')
            \<and> take (length (hist_v (history m'))) (hist_v (history m'')) = hist_v (history m')
            \<and> take (length (hist_w (history m'))) (hist_w (history m'')) = hist_w (history m')
            \<and> take (length (hist_s (history m'))) (hist_s (history m'')) = hist_s (history m'))"
    using c r len ent pre length_call_indices [of d ts]
    by (intro exI [of _ m'] exI [of _ r]) simp
  have zero: "call_indices 0 ts = []"
    by (simp add: call_indices_def n_steps_zero)
  show ?thesis using main zero by blast
qed

theorem history_invariant_witness:
  "call_indices (1/2) [1, 1/2] = [0, 1, 0]
   \<and> (\<exists>m' r mk m''. run_calls [1, 1/2] (BuenoOrovio0D (1/2) []) = Some m'
        \<and> iterate_step [0, 1, 0] (BuenoOrovio0D (1/2) []) = Inr r
        \<and> variables m' = variables r
        \<and> length (hist_u (history m')) = 3 \<and> length (hist_v (history m')) = 3
        \<and> length (hist_w (history m')) = 3 \<and> length (hist_s (history m')) = 3
        \<and> iterate_step [0, 1] (BuenoOrovio0D (1/2) []) = Inr mk
        \<and> hist_u (history m') ! 1 = var_u (variables mk)
        \<and> hist_s (history m') ! 1 = var_s (variables mk)
        \<and> run_calls ([1, 1/2] @ [1]) (BuenoOrovio0D (1/2) []) = Some m''
        \<and> take 3 (hist_u (history m'')) = hist_u (history m'))"
proof -
  let ?m0 = "BuenoOrovio0D (1/2) []"
  have n1: "n_steps 1 (1/2) = Inr 2" using n_steps_small [of "1/2" 1] by simp
  have n2: "n_steps (1/2) (1/2) = Inr 1" using n_steps_small [of "1/2" "1/2"] by simp
  have idx: "call_indices (1/2) [1, 1/2] = [0, 1, 0]"
    by (simp add: call_indices_def n1 n2 py_range_def upt_rec numeral_2_eq_2)
  note T = history_invariant [of "[1, 1/2]" "1/2" "[]" "[1]", THEN conjunct1]
  from T obtain m' r m'' where
    m': "run_calls [1, 1/2] ?m0 = Some m'"
      "iterate_step (call_indices (1/2) [1, 1/2]) ?m0 = Inr r" "variables m' = variables r"
      "length (hist_u (history m')) = length (call_indices (1/2) [1, 1/2])"
      "length (hist_v (history m')) = length (call_indices (1/2) [1, 1/2])"
      "length (hist_w (history m')) = length (call_indices (1/2) [1, 1/2])"
      "length (hist_s (history m')) = length (call_indices (1/2) [1, 1/2])"
    and ent: "\<forall>k<length (call_indices (1/2) [1, 1/2]).
       \<exists>mk. iterate_step (take (Suc k) (call_indices (1/2) [1, 1/2])) ?m0 = Inr mk
              \<and> hist_u (history m') ! k = var_u (variables mk)
              \<and> hist_s (history m') ! k = var_s (variables mk)"
    and m'': "run_calls ([1, 1/2] @ [1]) ?m0 = Some m''"
      "take (length (hist_u (history m'))) (hist_u (history m'')) = hist_u (history m')"
    by blast
  have "(1::nat) < length (call_indices (1/2) [1, 1/2])" by (simp add: idx)
  with ent obtain mk where
    "iterate_step (take (Suc 1) (call_indices (1/2) [1, 1/2])) ?m0 = Inr mk"
    "hist_u (history m') ! 1 = var_u (variables mk)"
    "hist_s (history m') ! 1 = var_s (variables mk)"
    by blast
  then have mk: "iterate_step [0, 1] ?m0 = Inr mk"
    "hist_u (history m') ! 1 = var_u (variables mk)"
    "hist_s (history m') ! 1 = var_s (variables mk)"
    by (simp_all add: idx)
  have l3: "length (hist_u (history m')) = 3" "length (hist_v (history m')) = 3"
    "length (hist_w (history m')) = 3" "length (hist_s (history m')) = 3"
    using m'(4-7) by (simp_all add: idx)
  have t3: "take 3 (hist_u (history m'')) = hist_u (history m')" using m''(2) l3(1) by simp
  have r3: "iterate_step [0, 1, 0] ?m0 = Inr r" using m'(2) by (simp add: idx)
  show ?thesis using idx m'(1,3) r3 l3 mk m''(1) t3 by blast
qed

section \<open>The default initial state\<close>

lemma half_tanh_lower:
  fixes x :: real
  assumes "- 2 \<le> x"
  shows "1 / 82 \<le> (1 + tanh x) / 2"
proof -
  have e4: "exp (4::real) \<le> 81"
  proof -
    have "exp (4::real) = exp 1 ^ 4" using exp_of_nat_mult [of 4 "1::real"] by simp
    also have "\<dots> \<le> 3 ^ 4" using exp_le by (intro power_mono) simp_all
    finally show ?thesis by simp
  qed
  have "exp (- 2 * x) \<le> exp 4" using assms by simp
  then have le: "exp (- 2 * x) \<le> 81" using e4 by linarith
  have pos: "0 < exp (- 2 * x)" by simp
  define E where "E = exp (- 2 * x)"
  have E: "0 < 1 + E" using pos by (simp add: E_def add_pos_pos)
  have "(1 + (1 - E) / (1 + E)) / 2 = 1 / (1 + E)" using E by (simp add: field_simps)
  then have A: "(1 + tanh x) / 2 = 1 / (1 + E)"
    unfolding tanh_real_altdef E_def .
  have B: "1 / 82 \<le> 1 / (1 + E)"
    using le E by (simp add: E_def pos_le_divide_eq)
  show ?thesis unfolding A by (rule B)
qed


lemma b64_round_pos_facts:
  assumes "0 < x"
  shows "b64_round x \<noteq> 0" "\<not> b64_round x \<le> 0" "\<not> b64_round x < 0"
  using b64_round_pos [OF assms] by simp_all

lemma b64_round_17_8: "b64_round (17/8) = 17/8"
  by (rule b64_round_exact [where e = "-51" and k = "17 * 2 ^ 48"]) (simp_all add: power_int_minus)

lemma b64_round_15_16: "b64_round (15/16) = 15/16"
  by (rule b64_round_exact [where e = "-53" and k = "15 * 2 ^ 49"]) (simp_all add: power_int_minus)

lemma b64_round_3: "b64_round 3 = 3"
  by (rule b64_round_exact [where e = "-51" and k = "3 * 2 ^ 51"]) (simp_all add: power_int_minus)

lemma b64_round_1_128: "b64_round (1/128) = 1/128"
  by (rule b64_round_exact [where e = "-59" and k = "2 ^ 52"]) (simp_all add: power_int_minus)

lemma default_s_bounds:
  "0 < par_k_s get_parameters" "par_k_s get_parameters \<le> 17/8"
  "0 < par_u_s get_parameters" "par_u_s get_parameters \<le> 15/16"
  "0 < par_tau_s1 get_parameters" "par_tau_s1 get_parameters \<le> 3"
  using b64_round_le [of "20994/10000" "17/8"] b64_round_le [of "9087/10000" "15/16"]
    b64_round_le [of "27342/10000" 3]
  by (simp_all add: get_parameters_def b64_round_pos b64_round_17_8 b64_round_15_16 b64_round_3)

lemma resting_s_rate_lower:
  "1 / 250 < ((1 + tanh (par_k_s get_parameters * (0 - par_u_s get_parameters))) / 2 - 0)
               / par_tau_s1 get_parameters"
proof -
  let ?k = "par_k_s get_parameters" and ?us = "par_u_s get_parameters"
    and ?tau = "par_tau_s1 get_parameters"
  note b = default_s_bounds
  have "?k * ?us \<le> 17/8 * (15/16)" using b by (intro mult_mono) simp_all
  then have "- 2 \<le> ?k * (0 - ?us)" by (simp add: algebra_simps)
  then have t: "1 / 82 \<le> (1 + tanh (?k * (0 - ?us))) / 2" by (rule half_tanh_lower)
  have "1 / 250 < (1 / 82) / (3::real)" by simp
  also have "\<dots> \<le> (1 / 82) / ?tau" using b(5,6) by (intro divide_left_mono) simp_all
  also have "\<dots> \<le> ((1 + tanh (?k * (0 - ?us))) / 2) / ?tau"
    using t b(5) by (intro divide_right_mono) simp_all
  finally show ?thesis by simp
qed

lemma step_resting:
  "step i (BuenoOrovio0D d [])
     = Inr ((BuenoOrovio0D d [])\<lparr>variables :=
         \<lparr>var_u = 0, var_v = 1, var_w = 1,
          var_s = d * (((1 + tanh (par_k_s get_parameters * (0 - par_u_s get_parameters))) / 2 - 0)
                        / par_tau_s1 get_parameters)\<rparr>\<rparr>)"
proof -
  have th: "0 < par_theta_v get_parameters" "0 < par_theta_w get_parameters"
    "0 < par_theta_v_m get_parameters" "0 < par_theta_o get_parameters"
    by (simp_all add: get_parameters_def b64_round_pos)
  have uo: "par_u_o get_parameters = 0" by (simp add: get_parameters_def)
  have v: "calc_v 1 0 (par_theta_v get_parameters)
      (calc_v_inf 0 (par_theta_v_m get_parameters))
      (calc_tau_v_m 0 (par_theta_v_m get_parameters) (par_tau_v1_m get_parameters)
         (par_tau_v2_m get_parameters)) (par_tau_v_p get_parameters) = Inr 0"
    using th by (simp add: calc_v_def calc_v_inf_def calc_tau_v_m_def truediv_def
        default_divisors_nonzero)
  have winf: "calc_w_inf 0 (par_theta_o get_parameters) (par_tau_w_inf get_parameters)
      (par_w_inf get_parameters) = Inr 1"
    using th by (simp add: calc_w_inf_def truediv_def default_divisors_nonzero)
  have w: "calc_w 1 0 (par_theta_w get_parameters) 1
      (calc_tau_w_m 0 (par_tau_w1_m get_parameters) (par_tau_w2_m get_parameters)
         (par_k_w_m get_parameters) (par_u_w_m get_parameters)) (par_tau_w_p get_parameters)
      = Inr 0"
    using th by (simp add: calc_w_def truediv_def default_divisors_nonzero)
  have s: "calc_s 0 0 (calc_tau_s 0 (par_tau_s1 get_parameters) (par_tau_s2 get_parameters)
         (par_theta_w get_parameters)) (par_k_s get_parameters) (par_u_s get_parameters)
      = Inr (((1 + tanh (par_k_s get_parameters * (0 - par_u_s get_parameters))) / 2 - 0)
                        / par_tau_s1 get_parameters)"
    using th by (simp add: calc_s_def calc_tau_s_def truediv_def default_divisors_nonzero)
  have jfi: "calc_Jfi 0 1 (par_theta_v get_parameters) (par_u_u get_parameters)
      (par_tau_fi get_parameters) = Inr 0"
    using th by (simp add: calc_Jfi_def calc_Jfi_locals_def gate_H_def truediv_def default_divisors_nonzero)
  have jso: "calc_Jso 0 (par_u_o get_parameters) (par_theta_w get_parameters)
      (calc_tau_o 0 (par_tau_o1 get_parameters) (par_tau_o2 get_parameters)
         (par_theta_o get_parameters))
      (calc_tau_so 0 (par_tau_so1 get_parameters) (par_tau_so2 get_parameters)
         (par_k_so get_parameters) (par_u_so get_parameters)) = Inr 0"
    using th by (simp add: calc_Jso_def calc_tau_o_def gate_H_def truediv_def uo
        default_divisors_nonzero)
  have jsi: "calc_Jsi 0 1 x (par_theta_w get_parameters) (par_tau_si get_parameters) = Inr 0"
    for x
    using th by (simp add: calc_Jsi_def gate_H_def truediv_def default_divisors_nonzero)
  show ?thesis
    unfolding step_def Let_def
    by (simp add: BuenoOrovio0D_def get_variables_def v winf w s jfi jso jsi calc_rhs_def
        stim_total_def py_sum_def)
qed


text \<open>
  With \<^verbatim>\<open>dt = 0.01\<close> and no stimulus, the first step from the default state moves \<open>s\<close> from
  0 to more than \<open>1/32000\<close>: the target \<open>(1 + tanh (k_s * (u - u_s))) / 2\<close> of \<open>s\<close> is not 0
  at \<open>u = 0\<close>.
\<close>

theorem resting_state_counterexample:
  "var_s (variables (BuenoOrovio0D (b64_round (1/100)) [])) = 0
   \<and> \<not> isl (step 0 (BuenoOrovio0D (b64_round (1/100)) []))
   \<and> 1 / 32000 < var_s (variables (projr (step 0 (BuenoOrovio0D (b64_round (1/100)) []))))"
proof -
  have d: "1 / 128 \<le> b64_round (1/100)"
    by (rule b64_round_ge) (simp_all add: b64_round_1_128)
  have "1 / 32000 = 1 / 128 * (1 / (250::real))" by simp
  also have "\<dots> < b64_round (1/100)
      * (((1 + tanh (par_k_s get_parameters * (0 - par_u_s get_parameters))) / 2 - 0)
           / par_tau_s1 get_parameters)"
    using d resting_s_rate_lower by (intro mult_le_less_imp_less) simp_all
  finally show ?thesis
    by (simp add: step_resting) (simp add: BuenoOrovio0D_def get_variables_def)
qed

text \<open>
  Claim C2, amended. With no stimulus and the default parameters, a step from the default
  state \<open>(u, v, w, s) = (0, 1, 1, 0)\<close> returns and leaves \<open>u\<close>, \<open>v\<close> and \<open>w\<close> exactly
  unchanged; \<open>s\<close> becomes \<open>dt * ((1 + tanh (k_s * (0 - u_s))) / 2) / tau_s1\<close>, a rate above
  \<open>1/250\<close>, so for \<open>dt > 0\<close> it grows by more than \<open>dt / 250\<close>.
\<close>

theorem resting_state_step:
  "step i (BuenoOrovio0D d [])
     = Inr ((BuenoOrovio0D d [])\<lparr>variables :=
         \<lparr>var_u = 0, var_v = 1, var_w = 1,
          var_s = d * (((1 + tanh (par_k_s get_parameters * (0 - par_u_s get_parameters))) / 2 - 0)
                        / par_tau_s1 get_parameters)\<rparr>\<rparr>)
   \<and> 1 / 250 < ((1 + tanh (par_k_s get_parameters * (0 - par_u_s get_parameters))) / 2 - 0)
                   / par_tau_s1 get_parameters
   \<and> (0 < d \<longrightarrow>
        var_s (variables (BuenoOrovio0D d [])) + d / 250
          < var_s (variables (projr (step i (BuenoOrovio0D d [])))))"
proof -
  have "d / 250 < d * (((1 + tanh (par_k_s get_parameters * (0 - par_u_s get_parameters))) / 2 - 0)
                        / par_tau_s1 get_parameters)" if "0 < d"
  proof -
    have "d / 250 = d * (1 / 250)" by simp
    also have "\<dots> < d * (((1 + tanh (par_k_s get_parameters * (0 - par_u_s get_parameters))) / 2 - 0)
                        / par_tau_s1 get_parameters)"
      using that resting_s_rate_lower by (rule mult_strict_left_mono [rotated])
    finally show ?thesis .
  qed
  then show ?thesis
    using resting_s_rate_lower
    by (simp add: step_resting) (simp add: BuenoOrovio0D_def get_variables_def)
qed

theorem resting_state_step_witness:
  "(0::real) < 1/128
   \<and> var_s (variables (BuenoOrovio0D (1/128) [])) + (1/128) / 250
       < var_s (variables (projr (step 0 (BuenoOrovio0D (1/128) []))))
   \<and> var_u (variables (projr (step 0 (BuenoOrovio0D (1/128) [])))) = 0
   \<and> var_v (variables (projr (step 0 (BuenoOrovio0D (1/128) [])))) = 1
   \<and> var_w (variables (projr (step 0 (BuenoOrovio0D (1/128) [])))) = 1"
proof -
  have h: "(0::real) < 1/128" by simp
  note T = resting_state_step [of 0 "1/128"]
  from T h have a: "var_s (variables (BuenoOrovio0D (1/128) [])) + (1/128) / 250
       < var_s (variables (projr (step 0 (BuenoOrovio0D (1/128) []))))"
    by blast
  from T have b: "var_u (variables (projr (step 0 (BuenoOrovio0D (1/128) [])))) = 0
   \<and> var_v (variables (projr (step 0 (BuenoOrovio0D (1/128) [])))) = 1
   \<and> var_w (variables (projr (step 0 (BuenoOrovio0D (1/128) [])))) = 1"
    by simp
  show ?thesis using h a b by blast
qed

section \<open>The update order of \<^verbatim>\<open>step\<close>\<close>

lemma step_components:
  assumes "step i m = Inr m'"
  shows "\<exists>dv w_inf dw ds J_fi J_so J_si.
      calc_v (var_v (variables m)) (var_u (variables m)) (par_theta_v (parameters m))
        (calc_v_inf (var_u (variables m)) (par_theta_v_m (parameters m)))
        (calc_tau_v_m (var_u (variables m)) (par_theta_v_m (parameters m))
           (par_tau_v1_m (parameters m)) (par_tau_v2_m (parameters m)))
        (par_tau_v_p (parameters m)) = Inr dv
    \<and> calc_w_inf (var_u (variables m)) (par_theta_o (parameters m))
        (par_tau_w_inf (parameters m)) (par_w_inf (parameters m)) = Inr w_inf
    \<and> calc_w (var_w (variables m)) (var_u (variables m)) (par_theta_w (parameters m)) w_inf
        (calc_tau_w_m (var_u (variables m)) (par_tau_w1_m (parameters m))
           (par_tau_w2_m (parameters m)) (par_k_w_m (parameters m)) (par_u_w_m (parameters m)))
        (par_tau_w_p (parameters m)) = Inr dw
    \<and> calc_s (var_s (variables m)) (var_u (variables m))
        (calc_tau_s (var_u (variables m)) (par_tau_s1 (parameters m))
           (par_tau_s2 (parameters m)) (par_theta_w (parameters m)))
        (par_k_s (parameters m)) (par_u_s (parameters m)) = Inr ds
    \<and> var_v (variables m') = var_v (variables m) + dt m * dv
    \<and> var_w (variables m') = var_w (variables m) + dt m * dw
    \<and> var_s (variables m') = var_s (variables m) + dt m * ds
    \<and> calc_Jfi (var_u (variables m)) (var_v (variables m')) (par_theta_v (parameters m))
        (par_u_u (parameters m)) (par_tau_fi (parameters m)) = Inr J_fi
    \<and> calc_Jso (var_u (variables m)) (par_u_o (parameters m)) (par_theta_w (parameters m))
        (calc_tau_o (var_u (variables m)) (par_tau_o1 (parameters m))
           (par_tau_o2 (parameters m)) (par_theta_o (parameters m)))
        (calc_tau_so (var_u (variables m)) (par_tau_so1 (parameters m))
           (par_tau_so2 (parameters m)) (par_k_so (parameters m)) (par_u_so (parameters m)))
        = Inr J_so
    \<and> calc_Jsi (var_u (variables m)) (var_w (variables m')) (var_s (variables m'))
        (par_theta_w (parameters m)) (par_tau_si (parameters m)) = Inr J_si
    \<and> var_u (variables m') = var_u (variables m) + dt m *
        (calc_rhs J_fi J_so J_si + stim_total (stimulations m) (step_time (dt m) i))"
  using assms unfolding step_def Let_def
  by (auto simp: bind_err_eq_Inr)

lemma calc_Jfi_succeeds: "calc_Jfi u v th uu tau = Inr J \<Longrightarrow> \<exists>J'. calc_Jfi u v' th uu tau = Inr J'"
  by (auto simp: calc_Jfi_def calc_Jfi_locals_def truediv_def Let_def split: if_splits)

lemma calc_Jsi_succeeds: "calc_Jsi u w s th tau = Inr J \<Longrightarrow> \<exists>J'. calc_Jsi u w' s' th tau = Inr J'"
  by (auto simp: calc_Jsi_def truediv_def Let_def split: if_splits)

lemma calc_v_succeeds: "calc_v v u th vi t1 t2 = Inr J \<Longrightarrow> \<exists>J'. calc_v v' u th vi t1 t2 = Inr J'"
  by (auto simp: calc_v_def truediv_def split: if_splits)

lemma calc_w_succeeds: "calc_w w u th wi t1 t2 = Inr J \<Longrightarrow> \<exists>J'. calc_w w' u th wi t1 t2 = Inr J'"
  by (auto simp: calc_w_def truediv_def split: if_splits)

lemma calc_s_succeeds: "calc_s s u t k us = Inr J \<Longrightarrow> \<exists>J'. calc_s s' u t k us = Inr J'"
  by (auto simp: calc_s_def truediv_def split: if_splits)

lemma forward_euler_gates:
  assumes "step i m = Inr m'"
  shows "\<exists>e. forward_euler_step i m = Inr e
    \<and> var_v (variables e) = var_v (variables m')
    \<and> var_w (variables e) = var_w (variables m')
    \<and> var_s (variables e) = var_s (variables m')"
proof -
  from step_components [OF assms] obtain dv w_inf dw ds J_fi J_so J_si where c:
    "calc_v (var_v (variables m)) (var_u (variables m)) (par_theta_v (parameters m))
        (calc_v_inf (var_u (variables m)) (par_theta_v_m (parameters m)))
        (calc_tau_v_m (var_u (variables m)) (par_theta_v_m (parameters m))
           (par_tau_v1_m (parameters m)) (par_tau_v2_m (parameters m)))
        (par_tau_v_p (parameters m)) = Inr dv"
    "calc_w_inf (var_u (variables m)) (par_theta_o (parameters m))
        (par_tau_w_inf (parameters m)) (par_w_inf (parameters m)) = Inr w_inf"
    "calc_w (var_w (variables m)) (var_u (variables m)) (par_theta_w (parameters m)) w_inf
        (calc_tau_w_m (var_u (variables m)) (par_tau_w1_m (parameters m))
           (par_tau_w2_m (parameters m)) (par_k_w_m (parameters m)) (par_u_w_m (parameters m)))
        (par_tau_w_p (parameters m)) = Inr dw"
    "calc_s (var_s (variables m)) (var_u (variables m))
        (calc_tau_s (var_u (variables m)) (par_tau_s1 (parameters m))
           (par_tau_s2 (parameters m)) (par_theta_w (parameters m)))
        (par_k_s (parameters m)) (par_u_s (parameters m)) = Inr ds"
    "var_v (variables m') = var_v (variables m) + dt m * dv"
    "var_w (variables m') = var_w (variables m) + dt m * dw"
    "var_s (variables m') = var_s (variables m) + dt m * ds"
    "calc_Jfi (var_u (variables m)) (var_v (variables m')) (par_theta_v (parameters m))
        (par_u_u (parameters m)) (par_tau_fi (parameters m)) = Inr J_fi"
    "calc_Jso (var_u (variables m)) (par_u_o (parameters m)) (par_theta_w (parameters m))
        (calc_tau_o (var_u (variables m)) (par_tau_o1 (parameters m))
           (par_tau_o2 (parameters m)) (par_theta_o (parameters m)))
        (calc_tau_so (var_u (variables m)) (par_tau_so1 (parameters m))
           (par_tau_so2 (parameters m)) (par_k_so (parameters m)) (par_u_so (parameters m)))
        = Inr J_so"
    "calc_Jsi (var_u (variables m)) (var_w (variables m')) (var_s (variables m'))
        (par_theta_w (parameters m)) (par_tau_si (parameters m)) = Inr J_si"
    by blast
  from calc_Jfi_succeeds [OF c(8), of "var_v (variables m)"] obtain J_fi' where
    jfi: "calc_Jfi (var_u (variables m)) (var_v (variables m)) (par_theta_v (parameters m))
        (par_u_u (parameters m)) (par_tau_fi (parameters m)) = Inr J_fi'" ..
  from calc_Jsi_succeeds [OF c(10), of "var_w (variables m)" "var_s (variables m)"]
  obtain J_si' where
    jsi: "calc_Jsi (var_u (variables m)) (var_w (variables m)) (var_s (variables m))
        (par_theta_w (parameters m)) (par_tau_si (parameters m)) = Inr J_si'" ..
  show ?thesis
    unfolding forward_euler_step_def Let_def
    by (simp add: c(1-7,9) jfi jsi)
qed


lemma forward_euler_components:
  assumes "forward_euler_step i m = Inr e"
  shows "\<exists>J_fi J_so J_si.
      calc_Jfi (var_u (variables m)) (var_v (variables m)) (par_theta_v (parameters m))
        (par_u_u (parameters m)) (par_tau_fi (parameters m)) = Inr J_fi
    \<and> calc_Jso (var_u (variables m)) (par_u_o (parameters m)) (par_theta_w (parameters m))
        (calc_tau_o (var_u (variables m)) (par_tau_o1 (parameters m))
           (par_tau_o2 (parameters m)) (par_theta_o (parameters m)))
        (calc_tau_so (var_u (variables m)) (par_tau_so1 (parameters m))
           (par_tau_so2 (parameters m)) (par_k_so (parameters m)) (par_u_so (parameters m)))
        = Inr J_so
    \<and> calc_Jsi (var_u (variables m)) (var_w (variables m)) (var_s (variables m))
        (par_theta_w (parameters m)) (par_tau_si (parameters m)) = Inr J_si
    \<and> var_u (variables e) = var_u (variables m) + dt m *
        (calc_rhs J_fi J_so J_si + stim_total (stimulations m) (step_time (dt m) i))"
  using assms unfolding forward_euler_step_def Let_def
  by (auto simp: bind_err_eq_Inr)

lemma default_threshold_bounds:
  "par_theta_v get_parameters \<le> 1/2" "par_theta_w get_parameters \<le> 1"
  "3/2 \<le> par_u_u get_parameters" "0 < par_tau_v_p get_parameters"
  "0 < par_tau_fi get_parameters"
  using b64_round_le [of "3/10" "1/2"] b64_round_le [of "13/100" 1]
    b64_round_ge [of "3/2" "155/100"]
  by (simp_all add: get_parameters_def b64_round_pos)

text \<open>
  \<^verbatim>\<open>step\<close> is not the textbook scheme. From \<open>(u, v, w, s) = (1, 1, 0, 0)\<close> with the default
  parameters and \<open>dt = 1/128\<close>, \<open>v\<close> decays within the step, and \<^verbatim>\<open>calc_Jfi\<close> then reads the
  decayed \<^verbatim>\<open>self.variables["v"]\<close>, so the new \<open>u\<close> differs from the forward Euler one.
\<close>

theorem step_forward_euler_counterexample:
  "step 0 ((BuenoOrovio0D (1/128) [])\<lparr>variables :=
       \<lparr>var_u = 1, var_v = 1, var_w = 0, var_s = 0\<rparr>\<rparr>)
   \<noteq> forward_euler_step 0 ((BuenoOrovio0D (1/128) [])\<lparr>variables :=
       \<lparr>var_u = 1, var_v = 1, var_w = 0, var_s = 0\<rparr>\<rparr>)"
proof
  let ?m = "(BuenoOrovio0D (1/128) [])\<lparr>variables :=
       \<lparr>var_u = 1, var_v = 1, var_w = 0, var_s = 0\<rparr>\<rparr>"
  let ?P = get_parameters
  assume eq: "step 0 ?m = forward_euler_step 0 ?m"
  note b = default_threshold_bounds
  have par: "parameters ?m = ?P" by simp
  from step_default_total [OF par, of 0] obtain m' where s: "step 0 ?m = Inr m'" ..
  with eq have e: "forward_euler_step 0 ?m = Inr m'" by simp
  from step_components [OF s] obtain dv w_inf dw ds J_fi J_so J_si where
    dv: "calc_v 1 1 (par_theta_v ?P) (calc_v_inf 1 (par_theta_v_m ?P))
        (calc_tau_v_m 1 (par_theta_v_m ?P) (par_tau_v1_m ?P) (par_tau_v2_m ?P))
        (par_tau_v_p ?P) = Inr dv"
    and dw: "calc_w 0 1 (par_theta_w ?P) w_inf
        (calc_tau_w_m 1 (par_tau_w1_m ?P) (par_tau_w2_m ?P) (par_k_w_m ?P) (par_u_w_m ?P))
        (par_tau_w_p ?P) = Inr dw"
    and v': "var_v (variables m') = 1 + 1/128 * dv"
    and w': "var_w (variables m') = 0 + 1/128 * dw"
    and jfi: "calc_Jfi 1 (var_v (variables m')) (par_theta_v ?P) (par_u_u ?P) (par_tau_fi ?P)
        = Inr J_fi"
    and jso: "calc_Jso 1 (par_u_o ?P) (par_theta_w ?P)
        (calc_tau_o 1 (par_tau_o1 ?P) (par_tau_o2 ?P) (par_theta_o ?P))
        (calc_tau_so 1 (par_tau_so1 ?P) (par_tau_so2 ?P) (par_k_so ?P) (par_u_so ?P))
        = Inr J_so"
    and jsi: "calc_Jsi 1 (var_w (variables m')) (var_s (variables m')) (par_theta_w ?P)
        (par_tau_si ?P) = Inr J_si"
    and u': "var_u (variables m') = 1 + 1/128 *
        (calc_rhs J_fi J_so J_si + stim_total [] (step_time (1/128) 0))"
    by auto
  from forward_euler_components [OF e] obtain K_fi K_so K_si where
    kfi: "calc_Jfi 1 1 (par_theta_v ?P) (par_u_u ?P) (par_tau_fi ?P) = Inr K_fi"
    and kso: "calc_Jso 1 (par_u_o ?P) (par_theta_w ?P)
        (calc_tau_o 1 (par_tau_o1 ?P) (par_tau_o2 ?P) (par_theta_o ?P))
        (calc_tau_so 1 (par_tau_so1 ?P) (par_tau_so2 ?P) (par_k_so ?P) (par_u_so ?P))
        = Inr K_so"
    and ksi: "calc_Jsi 1 0 0 (par_theta_w ?P) (par_tau_si ?P) = Inr K_si"
    and ue: "var_u (variables m') = 1 + 1/128 *
        (calc_rhs K_fi K_so K_si + stim_total [] (step_time (1/128) 0))"
    by auto
  have dv_val: "dv = - 1 / par_tau_v_p ?P"
    using dv b by (simp add: calc_v_def truediv_def)
  have dw_val: "dw = 0"
    using dw b by (simp add: calc_w_def truediv_def default_divisors_nonzero)
  have "J_si = 0" using jsi by (simp add: w' dw_val calc_Jsi_def truediv_def Let_def
        default_divisors_nonzero)
  moreover have "K_si = 0" using ksi by (simp add: calc_Jsi_def truediv_def Let_def
        default_divisors_nonzero)
  moreover have "J_so = K_so" using jso kso by simp
  ultimately have jk: "J_fi = K_fi" using u' ue by (simp add: calc_rhs_def)
  define c where "c = - ((1 - par_theta_v ?P) * (par_u_u ?P - 1)) / par_tau_fi ?P"
  have gen: "calc_Jfi 1 x (par_theta_v ?P) (par_u_u ?P) (par_tau_fi ?P) = Inr (x * c)" for x
    using b by (simp add: calc_Jfi_def calc_Jfi_locals_def gate_H_def truediv_def c_def)
  have j: "J_fi = var_v (variables m') * c" using jfi unfolding gen by simp
  have k: "K_fi = 1 * c" using kfi unfolding gen by simp
  have c0: "c \<noteq> 0" using b by (simp add: c_def)
  have "var_v (variables m') * c = 1 * c" using jk j k by simp
  then have "var_v (variables m') = 1" using c0 by simp
  then have "dv = 0" using v' by simp
  then show False using dv_val b by simp
qed


lemma forward_euler_u:
  assumes "step i m = Inr m'"
  shows "\<exists>e. forward_euler_step i (m\<lparr>variables := (variables m)\<lparr>var_v := var_v (variables m'),
        var_w := var_w (variables m'), var_s := var_s (variables m')\<rparr>\<rparr>) = Inr e
    \<and> var_u (variables e) = var_u (variables m')"
proof -
  from step_components [OF assms] obtain dv w_inf dw ds J_fi J_so J_si where c:
    "calc_v (var_v (variables m)) (var_u (variables m)) (par_theta_v (parameters m))
        (calc_v_inf (var_u (variables m)) (par_theta_v_m (parameters m)))
        (calc_tau_v_m (var_u (variables m)) (par_theta_v_m (parameters m))
           (par_tau_v1_m (parameters m)) (par_tau_v2_m (parameters m)))
        (par_tau_v_p (parameters m)) = Inr dv"
    "calc_w_inf (var_u (variables m)) (par_theta_o (parameters m))
        (par_tau_w_inf (parameters m)) (par_w_inf (parameters m)) = Inr w_inf"
    "calc_w (var_w (variables m)) (var_u (variables m)) (par_theta_w (parameters m)) w_inf
        (calc_tau_w_m (var_u (variables m)) (par_tau_w1_m (parameters m))
           (par_tau_w2_m (parameters m)) (par_k_w_m (parameters m)) (par_u_w_m (parameters m)))
        (par_tau_w_p (parameters m)) = Inr dw"
    "calc_s (var_s (variables m)) (var_u (variables m))
        (calc_tau_s (var_u (variables m)) (par_tau_s1 (parameters m))
           (par_tau_s2 (parameters m)) (par_theta_w (parameters m)))
        (par_k_s (parameters m)) (par_u_s (parameters m)) = Inr ds"
    "calc_Jfi (var_u (variables m)) (var_v (variables m')) (par_theta_v (parameters m))
        (par_u_u (parameters m)) (par_tau_fi (parameters m)) = Inr J_fi"
    "calc_Jso (var_u (variables m)) (par_u_o (parameters m)) (par_theta_w (parameters m))
        (calc_tau_o (var_u (variables m)) (par_tau_o1 (parameters m))
           (par_tau_o2 (parameters m)) (par_theta_o (parameters m)))
        (calc_tau_so (var_u (variables m)) (par_tau_so1 (parameters m))
           (par_tau_so2 (parameters m)) (par_k_so (parameters m)) (par_u_so (parameters m)))
        = Inr J_so"
    "calc_Jsi (var_u (variables m)) (var_w (variables m')) (var_s (variables m'))
        (par_theta_w (parameters m)) (par_tau_si (parameters m)) = Inr J_si"
    "var_u (variables m') = var_u (variables m) + dt m *
        (calc_rhs J_fi J_so J_si + stim_total (stimulations m) (step_time (dt m) i))"
    by blast
  from calc_v_succeeds [OF c(1), of "var_v (variables m')"] obtain dv' where
    v: "calc_v (var_v (variables m')) (var_u (variables m)) (par_theta_v (parameters m))
        (calc_v_inf (var_u (variables m)) (par_theta_v_m (parameters m)))
        (calc_tau_v_m (var_u (variables m)) (par_theta_v_m (parameters m))
           (par_tau_v1_m (parameters m)) (par_tau_v2_m (parameters m)))
        (par_tau_v_p (parameters m)) = Inr dv'" ..
  from calc_w_succeeds [OF c(3), of "var_w (variables m')"] obtain dw' where
    w: "calc_w (var_w (variables m')) (var_u (variables m)) (par_theta_w (parameters m)) w_inf
        (calc_tau_w_m (var_u (variables m)) (par_tau_w1_m (parameters m))
           (par_tau_w2_m (parameters m)) (par_k_w_m (parameters m)) (par_u_w_m (parameters m)))
        (par_tau_w_p (parameters m)) = Inr dw'" ..
  from calc_s_succeeds [OF c(4), of "var_s (variables m')"] obtain ds' where
    s: "calc_s (var_s (variables m')) (var_u (variables m))
        (calc_tau_s (var_u (variables m)) (par_tau_s1 (parameters m))
           (par_tau_s2 (parameters m)) (par_theta_w (parameters m)))
        (par_k_s (parameters m)) (par_u_s (parameters m)) = Inr ds'" ..
  show ?thesis
    unfolding forward_euler_step_def Let_def
    by (simp add: v c(2) w s c(5-8))
qed

text \<open>
  Claim C1, amended. When \<^verbatim>\<open>step(i)\<close> returns, \<open>v\<close>, \<open>w\<close> and \<open>s\<close> have received their
  forward Euler updates, with derivatives evaluated at the state the step started from
  (they agree with \<open>forward_euler_step\<close>); \<open>u\<close> is updated last, from the start-of-step
  \<open>u\<close> and the already updated \<open>v\<close>, \<open>w\<close>, \<open>s\<close>: \<^verbatim>\<open>J_fi\<close> reads the new \<open>v\<close>, \<^verbatim>\<open>J_si\<close> the
  new \<open>w\<close> and \<open>s\<close>, and the new \<open>u\<close> is the forward Euler \<open>u\<close> of the state whose \<open>v\<close>, \<open>w\<close>,
  \<open>s\<close> are the new ones. With the default parameters \<^verbatim>\<open>step\<close> returns.
\<close>

theorem step_update_scheme:
  "(step i m = Inr m' \<longrightarrow>
     (\<exists>dv w_inf dw ds J_fi J_so J_si.
      calc_v (var_v (variables m)) (var_u (variables m)) (par_theta_v (parameters m))
        (calc_v_inf (var_u (variables m)) (par_theta_v_m (parameters m)))
        (calc_tau_v_m (var_u (variables m)) (par_theta_v_m (parameters m))
           (par_tau_v1_m (parameters m)) (par_tau_v2_m (parameters m)))
        (par_tau_v_p (parameters m)) = Inr dv
    \<and> calc_w_inf (var_u (variables m)) (par_theta_o (parameters m))
        (par_tau_w_inf (parameters m)) (par_w_inf (parameters m)) = Inr w_inf
    \<and> calc_w (var_w (variables m)) (var_u (variables m)) (par_theta_w (parameters m)) w_inf
        (calc_tau_w_m (var_u (variables m)) (par_tau_w1_m (parameters m))
           (par_tau_w2_m (parameters m)) (par_k_w_m (parameters m)) (par_u_w_m (parameters m)))
        (par_tau_w_p (parameters m)) = Inr dw
    \<and> calc_s (var_s (variables m)) (var_u (variables m))
        (calc_tau_s (var_u (variables m)) (par_tau_s1 (parameters m))
           (par_tau_s2 (parameters m)) (par_theta_w (parameters m)))
        (par_k_s (parameters m)) (par_u_s (parameters m)) = Inr ds
    \<and> var_v (variables m') = var_v (variables m) + dt m * dv
    \<and> var_w (variables m') = var_w (variables m) + dt m * dw
    \<and> var_s (variables m') = var_s (variables m) + dt m * ds
    \<and> calc_Jfi (var_u (variables m)) (var_v (variables m')) (par_theta_v (parameters m))
        (par_u_u (parameters m)) (par_tau_fi (parameters m)) = Inr J_fi
    \<and> calc_Jso (var_u (variables m)) (par_u_o (parameters m)) (par_theta_w (parameters m))
        (calc_tau_o (var_u (variables m)) (par_tau_o1 (parameters m))
           (par_tau_o2 (parameters m)) (par_theta_o (parameters m)))
        (calc_tau_so (var_u (variables m)) (par_tau_so1 (parameters m))
           (par_tau_so2 (parameters m)) (par_k_so (parameters m)) (par_u_so (parameters m)))
        = Inr J_so
    \<and> calc_Jsi (var_u (variables m)) (var_w (variables m')) (var_s (variables m'))
        (par_theta_w (parameters m)) (par_tau_si (parameters m)) = Inr J_si
    \<and> var_u (variables m') = var_u (variables m) + dt m *
        (calc_rhs J_fi J_so J_si + stim_total (stimulations m) (step_time (dt m) i)))
     \<and> (\<exists>e. forward_euler_step i m = Inr e
          \<and> var_v (variables e) = var_v (variables m')
          \<and> var_w (variables e) = var_w (variables m')
          \<and> var_s (variables e) = var_s (variables m'))
     \<and> (\<exists>e. forward_euler_step i (m\<lparr>variables := (variables m)\<lparr>
            var_v := var_v (variables m'), var_w := var_w (variables m'),
            var_s := var_s (variables m')\<rparr>\<rparr>) = Inr e
          \<and> var_u (variables e) = var_u (variables m')))
   \<and> (parameters m = get_parameters \<longrightarrow> (\<exists>r. step i m = Inr r))"
  using step_components [of i m m'] forward_euler_gates [of i m m'] forward_euler_u [of i m m']
    step_default_total [of m i]
  by blast

theorem step_update_scheme_witness:
  "parameters (BuenoOrovio0D (1/128) []) = get_parameters
   \<and> (\<exists>r e J_fi J_so J_si. step 0 (BuenoOrovio0D (1/128) []) = Inr r
        \<and> forward_euler_step 0 (BuenoOrovio0D (1/128) []) = Inr e
        \<and> var_v (variables e) = var_v (variables r)
        \<and> var_w (variables e) = var_w (variables r)
        \<and> var_s (variables e) = var_s (variables r)
        \<and> calc_Jfi 0 (var_v (variables r)) (par_theta_v get_parameters)
              (par_u_u get_parameters) (par_tau_fi get_parameters) = Inr J_fi
        \<and> calc_Jsi 0 (var_w (variables r)) (var_s (variables r))
              (par_theta_w get_parameters) (par_tau_si get_parameters) = Inr J_si
        \<and> var_u (variables r) = 0 + 1/128 *
              (calc_rhs J_fi J_so J_si + stim_total [] (step_time (1/128) 0)))"
proof -
  let ?m = "BuenoOrovio0D (1/128) []"
  have h: "parameters ?m = get_parameters" by simp
  from step_update_scheme [of 0 ?m, THEN conjunct2, rule_format, OF h]
  obtain r where r: "step 0 ?m = Inr r" ..
  note T = step_update_scheme [of 0 ?m r, THEN conjunct1, rule_format, OF r]
  from T obtain e where e: "forward_euler_step 0 ?m = Inr e"
    "var_v (variables e) = var_v (variables r)" "var_w (variables e) = var_w (variables r)"
    "var_s (variables e) = var_s (variables r)"
    by blast
  from T obtain J_fi J_so J_si where
    "calc_Jfi (var_u (variables ?m)) (var_v (variables r)) (par_theta_v (parameters ?m))
        (par_u_u (parameters ?m)) (par_tau_fi (parameters ?m)) = Inr J_fi"
    "calc_Jsi (var_u (variables ?m)) (var_w (variables r)) (var_s (variables r))
        (par_theta_w (parameters ?m)) (par_tau_si (parameters ?m)) = Inr J_si"
    "var_u (variables r) = var_u (variables ?m) + dt ?m *
        (calc_rhs J_fi J_so J_si + stim_total (stimulations ?m) (step_time (dt ?m) 0))"
    by blast
  then have j: "calc_Jfi 0 (var_v (variables r)) (par_theta_v get_parameters)
              (par_u_u get_parameters) (par_tau_fi get_parameters) = Inr J_fi"
    "calc_Jsi 0 (var_w (variables r)) (var_s (variables r))
              (par_theta_w get_parameters) (par_tau_si get_parameters) = Inr J_si"
    "var_u (variables r) = 0 + 1/128 *
              (calc_rhs J_fi J_so J_si + stim_total [] (step_time (1/128) 0))"
    by (simp_all add: get_variables_def)
  show ?thesis using h r e j by blast
qed

end
